theory Spec2Isabelle
  imports Complex_Main "HOL-Library.List_Lexorder" "HOL-Library.Product_Lexorder"
begin

section \<open>Python strings and the built-ins the programs call\<close>

text \<open>
  A Python \<open>str\<close> is a sequence of Unicode code points, so a string is modelled as the
  list of its code points (natural numbers): \<open>len\<close> is \<open>length\<close> and indexing counts
  code points, as in Python. The characters the programs name are
  U+5E74 = 24180 (year), U+6708 = 26376 (month), U+65E5 = 26085 (day),
  U+2103 = 8451 (degree Celsius), \<open>/\<close> = 47, the blank = 32, \<open>0\<close> = 48 and the line feed = 10.
\<close>

type_synonym ustr = "nat list"

datatype py_error = ValueError | IndexError | TypeError | ConnectionError | IllegalCharacterError

text \<open>\<open>str.isspace\<close> of one character: the white space that \<open>str.strip()\<close> removes.\<close>

definition isspace :: "nat \<Rightarrow> bool" where
  "isspace c =
     (c \<in> set [9, 10, 11, 12, 13, 28, 29, 30, 31, 32, 133, 160, 5760, 8232, 8233, 8239, 8287, 12288]
      \<or> (8192 \<le> c \<and> c \<le> 8202))"

text \<open>
  The decimal digits of Unicode 14.0 come in blocks of ten consecutive code points, the
  digit zero first; \<open>decimal_bases\<close> lists the zeros. \<open>int\<close> reads exactly these as digits.
  \<open>str.isdigit\<close> also accepts the characters of \<open>other_digits\<close> (superscripts, circled
  digits and the like), which \<open>int\<close> rejects.
\<close>

definition decimal_bases :: "nat list" where
  "decimal_bases =
     [48, 1632, 1776, 1984, 2406, 2534, 2662, 2790, 2918, 3046, 3174, 3302, 3430, 3558, 3664,
      3792, 3872, 4160, 4240, 6112, 6160, 6470, 6608, 6784, 6800, 6992, 7088, 7232, 7248,
      42528, 43216, 43264, 43472, 43504, 43600, 44016, 65296, 66720, 68912, 69734, 69872,
      69942, 70096, 70384, 70736, 70864, 71248, 71360, 71472, 71904, 72016, 72784, 73040,
      73120, 92768, 92864, 93008, 120782, 120792, 120802, 120812, 120822, 123200, 123632,
      125264, 130032]"

definition other_digits :: "(nat \<times> nat) list" where
  "other_digits =
     [(178, 179), (185, 185), (4969, 4977), (6618, 6618), (8304, 8304), (8308, 8313),
      (8320, 8329), (9312, 9320), (9332, 9340), (9352, 9360), (9450, 9450), (9461, 9469),
      (9471, 9471), (10102, 10110), (10112, 10120), (10122, 10130), (68160, 68163),
      (69216, 69224), (69714, 69722), (127232, 127242)]"

definition decimal_value :: "nat \<Rightarrow> nat option" where
  "decimal_value c = map_option (\<lambda>b. c - b) (find (\<lambda>b. b \<le> c \<and> c < b + 10) decimal_bases)"

definition isdigit_char :: "nat \<Rightarrow> bool" where
  "isdigit_char c = (decimal_value c \<noteq> None \<or> list_ex (\<lambda>(lo, hi). lo \<le> c \<and> c \<le> hi) other_digits)"

text \<open>\<open>s.isdigit()\<close>: every character is a digit and there is at least one.\<close>

definition isdigit :: "ustr \<Rightarrow> bool" where
  "isdigit s = (s \<noteq> [] \<and> list_all isdigit_char s)"

text \<open>\<open>s.strip()\<close>, \<open>s.lstrip(chars)\<close> and \<open>s.rstrip(chars)\<close>.\<close>

definition strip :: "ustr \<Rightarrow> ustr" where
  "strip s = rev (dropWhile isspace (rev (dropWhile isspace s)))"

definition lstrip :: "ustr \<Rightarrow> ustr \<Rightarrow> ustr" where
  "lstrip chars s = dropWhile (\<lambda>c. c \<in> set chars) s"

definition rstrip :: "ustr \<Rightarrow> ustr \<Rightarrow> ustr" where
  "rstrip chars s = rev (dropWhile (\<lambda>c. c \<in> set chars) (rev s))"

text \<open>\<open>s.split(sep)\<close> for a separator of one character: never the empty list.\<close>

fun split :: "nat \<Rightarrow> ustr \<Rightarrow> ustr list" where
  "split sep [] = [[]]"
| "split sep (c # cs) =
     (if c = sep then [] # split sep cs
      else (case split sep cs of [] \<Rightarrow> [[c]] | p # ps \<Rightarrow> (c # p) # ps))"

text \<open>\<open>xs[i]\<close> for an index that is not negative: out of range raises IndexError.\<close>

definition py_index :: "'a list \<Rightarrow> nat \<Rightarrow> py_error + 'a" where
  "py_index xs i = (if i < length xs then Inr (xs ! i) else Inl IndexError)"

text \<open>
  \<open>int(s)\<close> of a string, base ten. CPython first maps the string to ASCII: a character
  below 127 stays, white space becomes a blank, a decimal digit becomes its ASCII digit,
  and any other character makes the call fail. It then skips ASCII white space, reads a
  sign, reads digits with single underscores between them, and skips ASCII white space to
  the end of the string. More than 4300 digits are refused. \<open>None\<close> is ValueError.
\<close>

definition ascii_space :: "nat \<Rightarrow> bool" where
  "ascii_space c = (c = 32 \<or> (9 \<le> c \<and> c \<le> 13))"

definition ascii_digit :: "nat \<Rightarrow> bool" where
  "ascii_digit c = (48 \<le> c \<and> c \<le> 57)"

definition to_ascii :: "nat \<Rightarrow> nat option" where
  "to_ascii c =
     (if c < 127 then Some c
      else if isspace c then Some 32
      else map_option (\<lambda>d. 48 + d) (decimal_value c))"

fun those_opt :: "'a option list \<Rightarrow> 'a list option" where
  "those_opt [] = Some []"
| "those_opt (None # xs) = None"
| "those_opt (Some x # xs) = map_option ((#) x) (those_opt xs)"

fun double_underscore :: "nat list \<Rightarrow> bool" where
  "double_underscore (a # b # cs) = ((a = 95 \<and> b = 95) \<or> double_underscore (b # cs))"
| "double_underscore cs = False"

definition digits_value :: "nat list \<Rightarrow> int" where
  "digits_value ds = foldl (\<lambda>v d. v * 10 + int d) 0 ds"

definition parse_int :: "nat list \<Rightarrow> int option" where
  "parse_int a =
     (let s1 = dropWhile ascii_space a;
          neg = (s1 \<noteq> [] \<and> hd s1 = 45);
          s2 = (if s1 \<noteq> [] \<and> (hd s1 = 43 \<or> hd s1 = 45) then tl s1 else s1);
          body = takeWhile (\<lambda>c. ascii_digit c \<or> c = 95) s2;
          rest = dropWhile (\<lambda>c. ascii_digit c \<or> c = 95) s2;
          ds = map (\<lambda>c. c - 48) (filter ascii_digit body)
      in if body = [] \<or> hd body = 95 \<or> last body = 95 \<or> double_underscore body then None
         else if dropWhile ascii_space rest \<noteq> [] then None
         else if length ds > 4300 then None
         else Some (if neg then - digits_value ds else digits_value ds))"

definition py_int :: "ustr \<Rightarrow> int option" where
  "py_int s = (case those_opt (map to_ascii s) of None \<Rightarrow> None | Some a \<Rightarrow> parse_int a)"

text \<open>\<open>str(n)\<close> of a natural number: its decimal digits.\<close>

fun py_str :: "nat \<Rightarrow> ustr" where
  "py_str n = (if n < 10 then [48 + n] else py_str (n div 10) @ [48 + n mod 10])"

declare py_str.simps [simp del]

subsection \<open>The regular expression of the date cell\<close>

text \<open>
  \<open>re.match('(.*)Y(.*)M(.*)D', s)\<close> is a pattern of capturing groups \<open>(.*)\<close> and literal
  characters, matched from the start of \<open>s\<close> (nothing is asked of what follows the match).
  \<open>.\<close> is any character but the line feed. \<open>.*\<close> is greedy: the matcher first tries to
  put one more character into the group, and only when the rest of the pattern then fails
  does it end the group where it stands. The result is the list of groups.
\<close>

datatype re_item = AnyStar | Lit nat

fun re_match :: "re_item list \<Rightarrow> ustr \<Rightarrow> ustr list option" where
  "re_match [] s = Some []"
| "re_match (Lit c # r) [] = None"
| "re_match (Lit c # r) (x # xs) = (if x = c then re_match r xs else None)"
| "re_match (AnyStar # r) [] = map_option ((#) []) (re_match r [])"
| "re_match (AnyStar # r) (x # xs) =
     (case (if x = 10 then None else re_match (AnyStar # r) xs) of
        Some (g # gs) \<Rightarrow> Some ((x # g) # gs)
      | _ \<Rightarrow> map_option ((#) []) (re_match r (x # xs)))"

definition date_pattern :: "re_item list" where
  "date_pattern = [AnyStar, Lit 24180, AnyStar, Lit 26376, AnyStar, Lit 26085]"

section \<open>fetch.py: the workbook, the page and the world\<close>

text \<open>
  A cell of an openpyxl sheet holds a string or nothing (Python's \<open>None\<close>); a sheet is
  the list of its rows. A workbook has an active sheet or none (\<open>wb.active\<close> is
  \<open>None\<close>). \<open>half_row\<close> holds the cells that an \<open>append\<close> which failed has left in the
  row after the last one: openpyxl writes the cells of a row one by one and moves its row
  counter only when all are written, so the next \<open>append\<close> writes over them.
\<close>

datatype cell = CNone | CStr ustr

type_synonym row = "cell list"

record workbook =
  active :: "row list option"
  half_row :: "cell list"

text \<open>
  Storing a value in a cell (openpyxl's \<open>check_string\<close>): a string is cut to its first
  32767 characters, and refused with IllegalCharacterError when the cut string holds one
  of the control characters 0 to 8, 11, 12 or 14 to 31.
\<close>

definition illegal_char :: "nat \<Rightarrow> bool" where
  "illegal_char c = (c \<le> 8 \<or> c = 11 \<or> c = 12 \<or> (14 \<le> c \<and> c \<le> 31))"

definition bind_value :: "cell \<Rightarrow> py_error + cell" where
  "bind_value v =
     (case v of
        CNone \<Rightarrow> Inr CNone
      | CStr s \<Rightarrow>
          if list_ex illegal_char (take 32767 s) then Inl IllegalCharacterError
          else Inr (CStr (take 32767 s)))"

text \<open>
  \<open>sheet.append(values)\<close>: the values are stored from left to right in the row after the
  last one, over the cells \<open>old\<close> that row already has. When a value is refused, the cells
  written so far stay and the row is not counted; otherwise the row is the new last row.
\<close>

fun write_cells :: "cell list \<Rightarrow> cell list \<Rightarrow> py_error option \<times> cell list" where
  "write_cells [] old = (None, old)"
| "write_cells (v # vs) old =
     (case bind_value v of
        Inl e \<Rightarrow> (Some e, old)
      | Inr c \<Rightarrow> (case write_cells vs (drop 1 old) of (err, cells) \<Rightarrow> (err, c # cells)))"

definition sheet_append ::
  "row \<Rightarrow> row list \<Rightarrow> cell list \<Rightarrow> py_error option \<times> row list \<times> cell list" where
  "sheet_append values sheet half =
     (case write_cells values half of
        (None, cells) \<Rightarrow> (None, sheet @ [cells], [])
      | (Some e, cells) \<Rightarrow> (Some e, sheet, cells))"

text \<open>The header row that a new dataset gets (nine column titles).\<close>

definition header_row :: row where
  "header_row = map CStr
     [[24180], [26376], [26085], [30333, 22825, 22825, 27668], [22812, 38388, 22825, 27668],
      [26368, 39640, 28201, 24230, 47, 8451], [26368, 20302, 28201, 24230, 47, 8451],
      [30333, 22825, 39118, 21147, 39118, 21521], [22812, 38388, 39118, 21147, 39118, 21521]]"

text \<open>\<open>openpyxl.Workbook()\<close> after the \<open>append\<close> of the header row (lines 43 to 49).\<close>

definition new_workbook :: workbook where
  "new_workbook = \<lparr>active = Some [header_row], half_row = []\<rparr>"

text \<open>
  The page as BeautifulSoup hands it to the program: the status code of the response and
  the element of class \<open>weather-table\<close> (or none), which is the list of what
  \<open>find_all('tr')\<close> returns; each entry is a tag with the texts of its \<open>td\<close> cells, or not
  a tag.
\<close>

datatype html_row = RowTag "ustr list" | NotTag

record response =
  status_code :: int
  table :: "html_row list option"

text \<open>
  What the program reads but does not change: the clock (\<open>datetime.now()\<close>, one instant
  for the whole call) and the web site, a function from the URL to the response;
  \<open>None\<close> is a request that raises instead of returning a response.
\<close>

record env =
  now_year :: int
  now_month :: int
  web :: "ustr \<Rightarrow> response option"

text \<open>
  What the program changes outside its own variables: the files under their paths (each
  the workbook that \<open>wb.save\<close> was given), and, kept for the theorems, the list of the URLs
  requested and the list of the paths saved, in the order of the calls. Directories and
  failures of the file system itself are not modelled.
\<close>

record world =
  files :: "ustr \<Rightarrow> workbook option"
  requested :: "ustr list"
  saved :: "ustr list"

definition save :: "ustr \<Rightarrow> workbook \<Rightarrow> world \<Rightarrow> world" where
  "save path wb w = w\<lparr>files := (files w)(path \<mapsto> wb), saved := saved w @ [path]\<rparr>"

text \<open>
  A workbook as \<open>openpyxl.load_workbook\<close> reads it back from its file: a cell that held
  the empty string is written as an empty cell and read as \<open>None\<close>; the cells of a row
  left half written are a row of the file like any other. The text of every other cell is
  taken to be read back as written: what the XML reader does to a carriage return is not
  modelled.
\<close>

definition blank_cell :: "cell \<Rightarrow> cell" where
  "blank_cell c = (if c = CStr [] then CNone else c)"

definition reloaded :: "workbook \<Rightarrow> workbook" where
  "reloaded wb =
     \<lparr>active = map_option
         (\<lambda>rows. map (map blank_cell) (rows @ (if half_row wb = [] then [] else [half_row wb])))
         (active wb),
      half_row = []\<rparr>"

definition load_workbook :: "ustr \<Rightarrow> world \<Rightarrow> workbook option" where
  "load_workbook path w = map_option reloaded (files w path)"

text \<open>\<open>os.path.join(a, b)\<close> on POSIX, and \<open>os.path.join('data', file + '.xlsx')\<close>.\<close>

definition os_path_join :: "ustr \<Rightarrow> ustr \<Rightarrow> ustr" where
  "os_path_join a b =
     (if b \<noteq> [] \<and> hd b = 47 then b
      else if a = [] \<or> last a = 47 then a @ b
      else a @ [47] @ b)"

definition data_path :: "ustr \<Rightarrow> ustr" where
  "data_path file = os_path_join [100, 97, 116, 97] (file @ [46, 120, 108, 115, 120])"

definition url_base :: ustr where
  "url_base = [104, 116, 116, 112, 115, 58, 47, 47, 119, 119, 119, 46, 116, 105, 97, 110, 113,
     105, 104, 111, 117, 98, 97, 111, 46, 99, 111, 109, 47, 108, 105, 115, 104, 105, 47]"

definition page_url :: "ustr \<Rightarrow> ustr \<Rightarrow> ustr \<Rightarrow> ustr" where
  "page_url city year month =
     url_base @ city @ [47, 109, 111, 110, 116, 104, 47] @ year @ month @ [46, 104, 116, 109, 108]"

subsection \<open>One row of the table (lines 86 to 124)\<close>

text \<open>
  \<open>split_pair\<close> is the pattern of lines 96 to 121: split the cell at \<open>/\<close>; two parts give
  the day and the night value, each stripped; anything else gives two empty strings.
\<close>

definition split_pair :: "(ustr \<Rightarrow> ustr) \<Rightarrow> ustr \<Rightarrow> ustr \<times> ustr" where
  "split_pair clean c =
     (let parts = split 47 c
      in if length parts = 2 then (clean (parts ! 0), clean (parts ! 1)) else ([], []))"

text \<open>
  The body of the row loop for a row that is a tag: \<open>Inl\<close> an exception, \<open>Inr None\<close> the
  \<open>continue\<close> of line 91, \<open>Inr (Some r)\<close> the row that line 123 appends. \<open>month\<close> is the
  month as line 35 left it.
\<close>

definition extract_row :: "ustr \<Rightarrow> ustr \<Rightarrow> ustr list \<Rightarrow> py_error + row option" where
  "extract_row year month columns =
     (case py_index columns 0 of Inl e \<Rightarrow> Inl e | Inr c0 \<Rightarrow>
      (case re_match date_pattern c0 of
         None \<Rightarrow> Inr None
       | Some groups \<Rightarrow>
           if length groups \<noteq> 3 then Inr None
           else
             let day = lstrip [48] (groups ! 2) in
             (case py_index columns 1 of Inl e \<Rightarrow> Inl e | Inr c1 \<Rightarrow>
                let (weather_day, weather_night) = split_pair strip c1 in
                (case py_index columns 2 of Inl e \<Rightarrow> Inl e | Inr c2 \<Rightarrow>
                   let (temperature_high, temperature_low) =
                         split_pair (\<lambda>t. rstrip [8451] (strip t)) c2 in
                   (case py_index columns 3 of Inl e \<Rightarrow> Inl e | Inr c3 \<Rightarrow>
                      let (wind_day, wind_night) = split_pair strip c3 in
                      Inr (Some (map CStr
                        [year, lstrip [48] month, day, weather_day, weather_night,
                         temperature_high, temperature_low, wind_day, wind_night])))))))"

text \<open>
  The row loop over the rows it visits, appending to the sheet (its rows and its half
  row). An exception ends the loop; what was written before it stays in the sheet, which
  is the second and third component.
\<close>

fun process_rows ::
  "ustr \<Rightarrow> ustr \<Rightarrow> html_row list \<Rightarrow> row list \<Rightarrow> cell list \<Rightarrow> py_error option \<times> row list \<times> cell list" where
  "process_rows year month [] sheet half = (None, sheet, half)"
| "process_rows year month (NotTag # rows) sheet half = process_rows year month rows sheet half"
| "process_rows year month (RowTag columns # rows) sheet half =
     (case extract_row year month columns of
        Inl e \<Rightarrow> (Some e, sheet, half)
      | Inr None \<Rightarrow> process_rows year month rows sheet half
      | Inr (Some r) \<Rightarrow>
          (case sheet_append r sheet half of
             (Some e, sheet', half') \<Rightarrow> (Some e, sheet', half')
           | (None, sheet', half') \<Rightarrow> process_rows year month rows sheet' half'))"

subsection \<open>fetch\_weather\_data\<close>

text \<open>
  The function returns \<open>None\<close> on every path; what tells the paths apart is the message
  it logs, which the model returns: \<open>Done\<close> after the row loop, or the error logged.
\<close>

datatype logged =
  Done | YearOutOfRange | MonthOutOfRange | SheetFailed | TableNotFound | PageUnavailable

text \<open>The argument \<open>file\<close>: a file name or a workbook object.\<close>

datatype file_arg = FileName ustr | Book workbook

text \<open>
  The result: the exception raised (\<open>Inl\<close>) or the message logged (\<open>Inr\<close>); the workbook
  the call worked on as the call left it, if it got that far (for \<open>Book\<close> this is the
  caller's object, which the call mutates); and the world after the call.
\<close>

type_synonym fetch_result = "(py_error + logged) \<times> workbook option \<times> world"

definition month_in_range :: "env \<Rightarrow> int \<Rightarrow> int \<Rightarrow> bool" where
  "month_in_range e y m = (\<not> (m < 1 \<or> m > 12 \<or> (y = now_year e \<and> m > now_month e)))"

definition year_in_range :: "env \<Rightarrow> int \<Rightarrow> bool" where
  "year_in_range e y = (\<not> (y < 2011 \<or> y > now_year e))"

definition pad_month :: "ustr \<Rightarrow> ustr" where
  "pad_month month = (if length month = 1 then 48 # month else month)"

text \<open>Lines 69 to 134: the request and the table, once the sheet is there.\<close>

definition fetch_page ::
  "env \<Rightarrow> file_arg \<Rightarrow> ustr \<Rightarrow> ustr \<Rightarrow> ustr \<Rightarrow> workbook \<Rightarrow> row list \<Rightarrow> world \<Rightarrow> fetch_result" where
  "fetch_page e file city year month wb sheet w =
     (let url = page_url city year month;
          w1 = w\<lparr>requested := requested w @ [url]\<rparr>
      in case web e url of
           None \<Rightarrow> (Inl ConnectionError, Some wb, w1)
         | Some resp \<Rightarrow>
             if status_code resp = 200 then
               (case table resp of
                  Some rows \<Rightarrow>
                    (case process_rows year month (drop 1 rows) sheet (half_row wb) of
                       (Some err, sheet', half') \<Rightarrow>
                         (Inl err, Some (wb\<lparr>active := Some sheet', half_row := half'\<rparr>), w1)
                     | (None, sheet', half') \<Rightarrow>
                         let wb' = wb\<lparr>active := Some sheet', half_row := half'\<rparr>
                         in (Inr Done, Some wb',
                             (case file of FileName f \<Rightarrow> save (data_path f) wb' w1 | Book b \<Rightarrow> w1)))
                | None \<Rightarrow> (Inr TableNotFound, Some wb, w1))
             else (Inr PageUnavailable, Some wb, w1))"

definition given_book :: "file_arg \<Rightarrow> workbook option" where
  "given_book file = (case file of FileName f \<Rightarrow> None | Book b \<Rightarrow> Some b)"

definition fetch_weather_data ::
  "env \<Rightarrow> file_arg \<Rightarrow> ustr \<Rightarrow> ustr \<Rightarrow> ustr \<Rightarrow> world \<Rightarrow> fetch_result" where
  "fetch_weather_data e file city year month w =
     (case py_int year of
        None \<Rightarrow> (Inl ValueError, given_book file, w)
      | Some y \<Rightarrow>
          if \<not> year_in_range e y then (Inr YearOutOfRange, given_book file, w)
          else
            (case py_int month of
               None \<Rightarrow> (Inl ValueError, given_book file, w)
             | Some m \<Rightarrow>
                 if \<not> month_in_range e y m then (Inr MonthOutOfRange, given_book file, w)
                 else
                   (case file of
                      FileName f \<Rightarrow>
                        (case load_workbook (data_path f) w of
                           None \<Rightarrow>
                             fetch_page e file city year (pad_month month) new_workbook [header_row]
                               (save (data_path f) new_workbook w)
                         | Some wb \<Rightarrow>
                             (case active wb of
                                None \<Rightarrow> (Inr SheetFailed, Some wb, w)
                              | Some sheet \<Rightarrow>
                                  fetch_page e file city year (pad_month month) wb sheet w))
                    | Book wb \<Rightarrow>
                        (case active wb of
                           None \<Rightarrow> (Inr SheetFailed, Some wb, w)
                         | Some sheet \<Rightarrow>
                             fetch_page e file city year (pad_month month) wb sheet w))))"

subsection \<open>fetch\_weather\_data\_year\<close>

text \<open>
  The loop over the months, each a call of \<open>fetch_weather_data\<close> on the same workbook
  object. An exception of a call leaves the loop (and the function).
\<close>

fun fetch_months ::
  "env \<Rightarrow> ustr \<Rightarrow> ustr \<Rightarrow> nat list \<Rightarrow> workbook \<Rightarrow> world \<Rightarrow> py_error option \<times> workbook \<times> world" where
  "fetch_months e city year [] wb w = (None, wb, w)"
| "fetch_months e city year (m # ms) wb w =
     (case fetch_weather_data e (Book wb) city year (py_str m) w of
        (Inl err, b, w') \<Rightarrow> (Some err, case_option wb id b, w')
      | (Inr l, b, w') \<Rightarrow> fetch_months e city year ms (case_option wb id b) w')"

definition fetch_weather_data_year ::
  "env \<Rightarrow> ustr \<Rightarrow> ustr \<Rightarrow> ustr \<Rightarrow> world \<Rightarrow> (py_error + unit) \<times> world" where
  "fetch_weather_data_year e file city year w =
     (let file_path = data_path file;
          (wb, w1) = (case load_workbook file_path w of
                        None \<Rightarrow> (new_workbook, save file_path new_workbook w)
                      | Some b \<Rightarrow> (b, w))
      in case fetch_months e city year [1..<13] wb w1 of
           (Some err, wb', w2) \<Rightarrow> (Inl err, w2)
         | (None, wb', w2) \<Rightarrow> (Inr (), save file_path wb' w2))"

section \<open>analyse.py: the counts behind the wind and the weather charts\<close>










text \<open>
  \<open>counts / years_count\<close> on a column of integers: the quotient, infinite when the divisor
  is zero (every count is positive). The quotient is the exact rational; the rounding to
  a float is not modelled.
\<close>

datatype quotient = Fin rat | Infinite

definition true_div :: "nat \<Rightarrow> nat \<Rightarrow> quotient" where
  "true_div c n = (if n = 0 then Infinite else Fin (of_nat c / of_nat n))"

text \<open>A row of the table of counts: the pair, its count and its count per year.\<close>

type_synonym 'm count_row = "('m \<times> ustr) \<times> nat \<times> quotient"

definition annualize :: "nat \<Rightarrow> (('m \<times> ustr) \<times> nat) list \<Rightarrow> 'm count_row list" where
  "annualize years_count counts = map (\<lambda>(k, c). (k, c, true_div c years_count)) counts"

text \<open>\<open>get_wind_sort_key\<close> (line 99).\<close>

definition get_wind_sort_key :: "ustr \<Rightarrow> py_error + int" where
  "get_wind_sort_key level_string =
     (case py_index level_string 0 of
        Inl e \<Rightarrow> Inl e
      | Inr c \<Rightarrow>
          let match1 = [c];
              match2 = (if length level_string > 2 then [level_string ! 2] else [])
          in if isdigit match1 \<and> isdigit match2 then
               (case py_int match1 of
                  None \<Rightarrow> Inl ValueError
                | Some a \<Rightarrow> (case py_int match2 of None \<Rightarrow> Inl ValueError | Some b \<Rightarrow> Inr (a * 10 + b)))
             else if isdigit match1 \<and> \<not> isdigit match2 then
               (case py_int match1 of None \<Rightarrow> Inl ValueError | Some a \<Rightarrow> Inr (a * 10))
             else Inr 99)"






section \<open>Notions the properties are stated with\<close>

text \<open>
  The date pattern as the specification words it: three groups of digits, each followed by
  its literal character, and nothing else in the cell.
\<close>

definition spec_numeric_date :: "ustr \<Rightarrow> bool" where
  "spec_numeric_date s =
     (let y = takeWhile ascii_digit s; r1 = dropWhile ascii_digit s;
          m = takeWhile ascii_digit (drop 1 r1); r2 = dropWhile ascii_digit (drop 1 r1);
          d = takeWhile ascii_digit (drop 1 r2); r3 = dropWhile ascii_digit (drop 1 r2)
      in y \<noteq> [] \<and> m \<noteq> [] \<and> d \<noteq> [] \<and> take 1 r1 = [24180] \<and> take 1 r2 = [26376] \<and> r3 = [26085])"


text \<open>
  The rows that the page of one month adds to the sheet, when the call is
  \<open>fetch_weather_data(wb, city, year, str(m))\<close> on a workbook without a half row: none
  when the year or the month is refused, when the request raises, when the status is not
  200 or when the page has no table.
\<close>

definition month_accepted :: "env \<Rightarrow> ustr \<Rightarrow> ustr \<Rightarrow> bool" where
  "month_accepted e year month =
     (case py_int year of
        None \<Rightarrow> False
      | Some y \<Rightarrow>
          year_in_range e y \<and> (case py_int month of None \<Rightarrow> False | Some m \<Rightarrow> month_in_range e y m))"

definition month_rows :: "env \<Rightarrow> ustr \<Rightarrow> ustr \<Rightarrow> ustr \<Rightarrow> row list" where
  "month_rows e city year month =
     (if month_accepted e year month then
        (case web e (page_url city year (pad_month month)) of
           None \<Rightarrow> []
         | Some resp \<Rightarrow>
             if status_code resp = 200 then
               (case table resp of
                  None \<Rightarrow> []
                | Some rows \<Rightarrow> fst (snd (process_rows year (pad_month month) (drop 1 rows) [] [])))
             else [])
      else [])"

text \<open>
  The workbook a call of \<open>fetch_weather_data\<close> works on, and the world once that workbook
  is open: a file name that has no file yet gets a new workbook, saved at once with the
  header row only (lines 41 to 51); a file that exists is read back.
\<close>

definition opened_book :: "file_arg \<Rightarrow> world \<Rightarrow> workbook" where
  "opened_book file w =
     (case file of
        Book b \<Rightarrow> b
      | FileName f \<Rightarrow> (case load_workbook (data_path f) w of None \<Rightarrow> new_workbook | Some b \<Rightarrow> b))"

definition opened_world :: "file_arg \<Rightarrow> world \<Rightarrow> world" where
  "opened_world file w =
     (case file of
        Book b \<Rightarrow> w
      | FileName f \<Rightarrow>
          (case files w (data_path f) of None \<Rightarrow> save (data_path f) new_workbook w | Some b \<Rightarrow> w))"

text \<open>
  The declarative reading of the pattern: the string starts with a match, a group being
  any run of characters without a line feed.
\<close>

fun matches :: "re_item list \<Rightarrow> ustr \<Rightarrow> bool" where
  "matches [] s = True"
| "matches (Lit c # r) s = (\<exists>t. s = c # t \<and> matches r t)"
| "matches (AnyStar # r) s = (\<exists>g t. s = g @ t \<and> 10 \<notin> set g \<and> matches r t)"




text \<open>
  A row of the page that has the cells the row loop reads: a row that is not a tag is
  passed over; a tag needs a first cell, and three more when the first one matches (lines
  88, 96, 105 and 114 index the cells).
\<close>

fun complete_row :: "html_row \<Rightarrow> bool" where
  "complete_row NotTag = True"
| "complete_row (RowTag []) = False"
| "complete_row (RowTag (c # cs)) = (re_match date_pattern c = None \<or> 3 \<le> length cs)"

text \<open>
  A value that the sheet refuses, a row as the sheet stores it (every string cut to
  32767 characters), and the rows of the page on which the row loop raises: a cell is
  missing (IndexError) or a field of the record is refused (IllegalCharacterError).
\<close>

definition refused :: "cell \<Rightarrow> bool" where
  "refused c = (case c of CNone \<Rightarrow> False | CStr s \<Rightarrow> list_ex illegal_char (take 32767 s))"

definition stored_row :: "row \<Rightarrow> row" where
  "stored_row r = map (\<lambda>c. case c of CNone \<Rightarrow> CNone | CStr s \<Rightarrow> CStr (take 32767 s)) r"

definition row_raises :: "ustr \<Rightarrow> ustr \<Rightarrow> html_row \<Rightarrow> bool" where
  "row_raises year month r =
     (case r of
        NotTag \<Rightarrow> False
      | RowTag columns \<Rightarrow>
          (case extract_row year month columns of
             Inl e \<Rightarrow> True
           | Inr None \<Rightarrow> False
           | Inr (Some record_cells) \<Rightarrow> list_ex refused record_cells))"

text \<open>
  The calls \<open>fetch_weather_data(wb, city, year, month)\<close> that end in an exception, for a
  workbook with an active sheet: \<open>int\<close> refuses the year or the month, the request
  raises, or the row loop raises on a row of the table.
\<close>

definition page_raises :: "env \<Rightarrow> ustr \<Rightarrow> ustr \<Rightarrow> ustr \<Rightarrow> bool" where
  "page_raises e city year month =
     (case py_int year of
        None \<Rightarrow> True
      | Some y \<Rightarrow>
          year_in_range e y \<and>
          (case py_int month of
             None \<Rightarrow> True
           | Some m \<Rightarrow>
               month_in_range e y m \<and>
               (case web e (page_url city year (pad_month month)) of
                  None \<Rightarrow> True
                | Some resp \<Rightarrow>
                    status_code resp = 200 \<and>
                    (case table resp of
                       None \<Rightarrow> False
                     | Some rows \<Rightarrow> list_ex (row_raises year (pad_month month)) (drop 1 rows)))))"

section \<open>Concrete inputs\<close>

text \<open>
  The city \<open>dalian\<close>, the year \<open>2023\<close>, a file name, and the cells of three rows: the row
  of the specification's example; a row whose date cell is \<open>2023-03-05\<close>; and a row dated
  7 January 2020 whose weather and temperature cells have no \<open>/\<close>.
\<close>

definition ex_city :: ustr where
  "ex_city = [100, 97, 108, 105, 97, 110]"

definition ex_year :: ustr where
  "ex_year = [50, 48, 50, 51]"

definition ex_file :: ustr where
  "ex_file = [119]"

definition ex_cond :: ustr where
  "ex_cond = [26228, 47, 22810, 20113]"

definition ex_temp :: ustr where
  "ex_temp = [49, 48, 8451, 47, 50, 8451]"

definition ex_wind :: ustr where
  "ex_wind = [21271, 39118, 32, 51, 32423, 47, 21335, 39118, 32, 50, 32423]"

definition ex_row :: "ustr list" where
  "ex_row = [[50, 48, 50, 51, 24180, 51, 26376, 53, 26085], ex_cond, ex_temp, ex_wind]"

definition ex_dash_date :: ustr where
  "ex_dash_date = [50, 48, 50, 51, 45, 48, 51, 45, 48, 53]"

definition ex_old_date :: ustr where
  "ex_old_date = [50, 48, 50, 48, 24180, 49, 26376, 48, 55, 26085]"

definition ex_old_row :: "ustr list" where
  "ex_old_row = [ex_old_date, [26228], [49, 48, 8451], ex_wind]"

text \<open>The records of the first and the third row, as a fetch of March 2023 stores them.\<close>

definition ex_record :: row where
  "ex_record = map CStr
     [[50, 48, 50, 51], [51], [53], [26228], [22810, 20113], [49, 48], [50],
      [21271, 39118, 32, 51, 32423], [21335, 39118, 32, 50, 32423]]"

definition ex_old_record :: row where
  "ex_old_record = map CStr
     [[50, 48, 50, 51], [51], [55], [], [], [], [],
      [21271, 39118, 32, 51, 32423], [21335, 39118, 32, 50, 32423]]"

text \<open>
  A page with a head row (no \<open>td\<close> cell) and the three rows; a site that serves it for
  March 2023 and answers 404 for every other URL, read on a day in March 2023; a world
  without files, and one where the dataset exists with its header row.
\<close>

definition ex_rows :: "html_row list" where
  "ex_rows = [RowTag [], RowTag ex_row, RowTag (ex_dash_date # [ex_cond, ex_temp, ex_wind]),
              RowTag ex_old_row]"

definition ex_env :: env where
  "ex_env = \<lparr>now_year = 2023, now_month = 3,
             web = (\<lambda>u. if u = page_url ex_city ex_year [48, 51]
                         then Some \<lparr>status_code = 200, table = Some ex_rows\<rparr>
                         else Some \<lparr>status_code = 404, table = None\<rparr>)\<rparr>"

definition ex_world :: world where
  "ex_world = \<lparr>files = (\<lambda>p. None), requested = [], saved = []\<rparr>"


text \<open>A site whose page of March 2023 holds the example row only.\<close>

definition ex_env_one :: env where
  "ex_env_one = \<lparr>now_year = 2023, now_month = 3,
                 web = (\<lambda>u. Some \<lparr>status_code = 200, table = Some [NotTag, RowTag ex_row]\<rparr>)\<rparr>"

text \<open>A site that cannot be reached: every request raises.\<close>

definition ex_env_down :: env where
  "ex_env_down = \<lparr>now_year = 2023, now_month = 3, web = (\<lambda>u. None)\<rparr>"





section \<open>The regular expression and the row loop\<close>

lemma re_match_length:
  "re_match r s = Some gs \<Longrightarrow> length gs = length (filter (\<lambda>i. i = AnyStar) r)"
proof (induction r s arbitrary: gs rule: re_match.induct)
  case (1 s)
  then show ?case by simp
next
  case (2 c r)
  then show ?case by simp
next
  case (3 c r x xs)
  then show ?case by (auto split: if_splits)
next
  case (4 r)
  then show ?case by auto
next
  case (5 r x xs)
  then show ?case by (auto split: if_splits option.splits list.splits)
qed

lemma date_groups: "re_match date_pattern c = Some gs \<Longrightarrow> length gs = 3"
  by (drule re_match_length) (simp add: date_pattern_def)

lemma re_match_matches: "(re_match r s \<noteq> None) = matches r s"
proof (induction r s rule: re_match.induct)
  case (1 s)
  then show ?case by simp
next
  case (2 c r)
  then show ?case by simp
next
  case (3 c r x xs)
  then show ?case by auto
next
  case (4 r)
  then show ?case by auto
next
  case (5 r x xs)
  let ?star = "if x = 10 then None else re_match (AnyStar # r) xs"
  have nonempty: "\<And>gs. ?star = Some gs \<Longrightarrow> gs \<noteq> []"
    by (auto split: if_splits dest: re_match_length)
  show ?case
  proof
    assume a: "re_match (AnyStar # r) (x # xs) \<noteq> None"
    show "matches (AnyStar # r) (x # xs)"
    proof (cases ?star)
      case None
      with a have "re_match r (x # xs) \<noteq> None" by auto
      with 5(2) None have "matches r (x # xs)" by simp
      then have "x # xs = [] @ (x # xs) \<and> 10 \<notin> set [] \<and> matches r (x # xs)" by simp
      then show ?thesis unfolding matches.simps by blast
    next
      case (Some gs)
      then have x: "x \<noteq> 10" and m: "re_match (AnyStar # r) xs \<noteq> None"
        by (auto split: if_splits)
      from 5(1) x m have "matches (AnyStar # r) xs" by simp
      then obtain g t where "xs = g @ t" "10 \<notin> set g" "matches r t" by auto
      with x have "x # xs = (x # g) @ t \<and> 10 \<notin> set (x # g) \<and> matches r t" by simp
      then show ?thesis unfolding matches.simps by blast
    qed
  next
    assume "matches (AnyStar # r) (x # xs)"
    then obtain g t where gt: "x # xs = g @ t" "10 \<notin> set g" "matches r t" by auto
    show "re_match (AnyStar # r) (x # xs) \<noteq> None"
    proof (cases ?star)
      case None
      have "g = []"
      proof (rule ccontr)
        assume "g \<noteq> []"
        with gt obtain g' where g': "g = x # g'" "xs = g' @ t" by (cases g) auto
        with gt have x: "x \<noteq> 10" and "matches (AnyStar # r) xs" by auto
        with 5(1) have "re_match (AnyStar # r) xs \<noteq> None" by simp
        with x None show False by simp
      qed
      with gt have "matches r (x # xs)" by simp
      with 5(2) None have "re_match r (x # xs) \<noteq> None" by simp
      with None show ?thesis by auto
    next
      case (Some gs)
      with nonempty obtain h hs where "gs = h # hs" by (cases gs) auto
      with Some show ?thesis by simp
    qed
  qed
qed

lemma date_match_iff:
  "(re_match date_pattern c \<noteq> None) =
     (\<exists>a b d t. c = a @ 24180 # b @ 26376 # d @ 26085 # t \<and> 10 \<notin> set a \<and> 10 \<notin> set b \<and> 10 \<notin> set d)"
proof -
  have "matches date_pattern c =
     (\<exists>a b d t. c = a @ 24180 # b @ 26376 # d @ 26085 # t \<and> 10 \<notin> set a \<and> 10 \<notin> set b \<and> 10 \<notin> set d)"
    (is "?l = ?r")
  proof
    assume ?l
    then show ?r unfolding date_pattern_def matches.simps by auto
  next
    assume ?r
    then obtain a b d t where c: "c = a @ 24180 # b @ 26376 # d @ 26085 # t"
      and n: "10 \<notin> set a" "10 \<notin> set b" "10 \<notin> set d" by blast
    have 1: "matches [Lit 26085] (26085 # t)" by simp
    have 2: "matches [AnyStar, Lit 26085] (d @ 26085 # t)"
      unfolding matches.simps(3) using 1 n by blast
    have 3: "matches [Lit 26376, AnyStar, Lit 26085] (26376 # d @ 26085 # t)"
      unfolding matches.simps(2) using 2 by blast
    have 4: "matches [AnyStar, Lit 26376, AnyStar, Lit 26085] (b @ 26376 # d @ 26085 # t)"
      unfolding matches.simps(3) using 3 n by blast
    have 5: "matches [Lit 24180, AnyStar, Lit 26376, AnyStar, Lit 26085] (24180 # b @ 26376 # d @ 26085 # t)"
      unfolding matches.simps(2) using 4 by blast
    show ?l unfolding date_pattern_def c matches.simps(3) using 5 n by blast
  qed
  then show ?thesis unfolding re_match_matches .
qed

lemma extract_row_skip:
  "re_match date_pattern c0 = None \<Longrightarrow> extract_row year month (c0 # cs) = Inr None"
  by (simp add: extract_row_def py_index_def)

lemma extract_row_ok:
  assumes "re_match date_pattern c0 = Some g"
  shows "extract_row year month (c0 # c1 # c2 # c3 # cs) =
           Inr (Some (map CStr
             [year, lstrip [48] month, lstrip [48] (g ! 2),
              fst (split_pair strip c1), snd (split_pair strip c1),
              fst (split_pair (\<lambda>t. rstrip [8451] (strip t)) c2),
              snd (split_pair (\<lambda>t. rstrip [8451] (strip t)) c2),
              fst (split_pair strip c3), snd (split_pair strip c3)]))"
  using assms date_groups [OF assms]
  by (simp add: extract_row_def py_index_def split_beta)

lemma extract_row_Some:
  assumes "extract_row year month cols = Inr (Some r)"
  shows "\<exists>c0 c1 c2 c3 cs g. cols = c0 # c1 # c2 # c3 # cs \<and> re_match date_pattern c0 = Some g"
proof -
  from assms obtain c0 r0 where c: "cols = c0 # r0"
    by (cases cols) (auto simp: extract_row_def py_index_def)
  from assms c obtain g where g: "re_match date_pattern c0 = Some g"
    by (cases "re_match date_pattern c0") (auto simp: extract_row_def py_index_def)
  have l: "length g = 3" using g by (rule date_groups)
  from assms c g l have "3 < length cols"
    by (auto simp: extract_row_def py_index_def split_beta split: if_splits sum.splits)
  then obtain c1 c2 c3 cs where "r0 = c1 # c2 # c3 # cs" using c
    by (cases r0; cases "tl r0"; cases "tl (tl r0)") auto
  with c g show ?thesis by blast
qed

lemma extract_row_cases:
  "extract_row year month cols =
     (case cols of
        [] \<Rightarrow> Inl IndexError
      | c0 # cs \<Rightarrow>
          (case re_match date_pattern c0 of
             None \<Rightarrow> Inr None
           | Some g \<Rightarrow>
               (case cs of
                  c1 # c2 # c3 # r \<Rightarrow>
                    Inr (Some (map CStr
                      [year, lstrip [48] month, lstrip [48] (g ! 2),
                       fst (split_pair strip c1), snd (split_pair strip c1),
                       fst (split_pair (\<lambda>t. rstrip [8451] (strip t)) c2),
                       snd (split_pair (\<lambda>t. rstrip [8451] (strip t)) c2),
                       fst (split_pair strip c3), snd (split_pair strip c3)]))
                | _ \<Rightarrow> Inl IndexError)))"
proof (cases cols)
  case Nil
  then show ?thesis by (simp add: extract_row_def py_index_def)
next
  case (Cons c0 cs)
  show ?thesis
  proof (cases "re_match date_pattern c0")
    case None
    then show ?thesis using Cons by (simp add: extract_row_skip)
  next
    case (Some g)
    have l: "length g = 3" using Some by (rule date_groups)
    show ?thesis
    proof (cases "3 \<le> length cs")
      case True
      then obtain c1 c2 c3 r where cs: "cs = c1 # c2 # c3 # r"
        by (cases cs; cases "tl cs"; cases "tl (tl cs)") auto
      show ?thesis using Cons Some cs extract_row_ok [OF Some] by simp
    next
      case False
      then have "cs = [] \<or> (\<exists>c1. cs = [c1]) \<or> (\<exists>c1 c2. cs = [c1, c2])"
        by (cases cs; cases "tl cs"; cases "tl (tl cs)") auto
      then show ?thesis using Cons Some l
        by (auto simp: extract_row_def py_index_def split_beta)
    qed
  qed
qed

lemma extract_row_raises:
  "(\<exists>e. extract_row year month cols = Inl e) = (\<not> complete_row (RowTag cols))"
  unfolding extract_row_cases
  by (cases cols; cases "tl cols"; cases "tl (tl cols)"; cases "tl (tl (tl cols))")
     (auto split: option.splits)


lemma bind_value_refused: "refused c \<Longrightarrow> bind_value c = Inl IllegalCharacterError"
  by (cases c) (simp_all add: refused_def bind_value_def)

lemma bind_value_stored:
  "\<not> refused c \<Longrightarrow> bind_value c = Inr (case c of CNone \<Rightarrow> CNone | CStr s \<Rightarrow> CStr (take 32767 s))"
  by (cases c) (simp_all add: refused_def bind_value_def)

lemma write_cells_ok:
  "\<not> list_ex refused r \<Longrightarrow> write_cells r old = (None, stored_row r @ drop (length r) old)"
proof (induction r arbitrary: old)
  case Nil
  then show ?case by (simp add: stored_row_def)
next
  case (Cons c r)
  then have c: "\<not> refused c" and r: "\<not> list_ex refused r" by simp_all
  show ?case using Cons.IH [OF r, of "drop 1 old"] bind_value_stored [OF c]
    by (simp add: stored_row_def)
qed

lemma write_cells_fail:
  "list_ex refused r \<Longrightarrow> \<exists>cells. write_cells r old = (Some IllegalCharacterError, cells)"
proof (induction r arbitrary: old)
  case Nil
  then show ?case by simp
next
  case (Cons c r)
  show ?case
  proof (cases "refused c")
    case True
    then show ?thesis by (simp add: bind_value_refused)
  next
    case False
    with Cons.prems have "list_ex refused r" by simp
    from Cons.IH [OF this, of "drop 1 old"] show ?thesis
      using bind_value_stored [OF False] by auto
  qed
qed

lemma sheet_append_ok:
  "\<not> list_ex refused r \<Longrightarrow>
     sheet_append r sheet half = (None, sheet @ [stored_row r @ drop (length r) half], [])"
  by (simp add: sheet_append_def write_cells_ok)

lemma sheet_append_fail:
  assumes "list_ex refused r"
  shows "\<exists>cells. sheet_append r sheet half = (Some IllegalCharacterError, sheet, cells)"
proof -
  from write_cells_fail [OF assms, of half]
  obtain cells where "write_cells r half = (Some IllegalCharacterError, cells)" by blast
  then show ?thesis by (simp add: sheet_append_def)
qed

lemma process_rows_append:
  "process_rows y m rs sheet half =
     (case process_rows y m rs [] half of (err, new, h) \<Rightarrow> (err, sheet @ new, h))"
proof (induction rs arbitrary: sheet half)
  case Nil
  then show ?case by simp
next
  case (Cons r rs)
  show ?case
  proof (cases r)
    case NotTag
    then show ?thesis using Cons.IH [of sheet half] by simp
  next
    case (RowTag cols)
    show ?thesis
    proof (cases "extract_row y m cols")
      case (Inl e)
      then show ?thesis using RowTag by simp
    next
      case (Inr ro)
      show ?thesis
      proof (cases ro)
        case None
        then show ?thesis using RowTag Inr Cons.IH [of sheet half] by simp
      next
        case (Some rw)
        show ?thesis
        proof (cases "list_ex refused rw")
          case True
          from sheet_append_fail [OF True, of sheet half]
          obtain cells where 1: "sheet_append rw sheet half = (Some IllegalCharacterError, sheet, cells)"
            by blast
          then have "write_cells rw half = (Some IllegalCharacterError, cells)"
            by (auto simp: sheet_append_def split: prod.splits option.splits)
          then have 2: "sheet_append rw [] half = (Some IllegalCharacterError, [], cells)"
            by (simp add: sheet_append_def)
          show ?thesis using RowTag Inr Some 1 2 by simp
        next
          case False
          let ?row = "stored_row rw @ drop (length rw) half"
          have a: "process_rows y m rs (sheet @ [?row]) [] =
              (case process_rows y m rs [] [] of (err, new, h) \<Rightarrow> (err, (sheet @ [?row]) @ new, h))"
            by (rule Cons.IH)
          have b: "process_rows y m rs [?row] [] =
              (case process_rows y m rs [] [] of (err, new, h) \<Rightarrow> (err, [?row] @ new, h))"
            by (rule Cons.IH)
          show ?thesis using RowTag Inr Some a b
            by (simp add: sheet_append_ok [OF False] split: prod.splits)
        qed
      qed
    qed
  qed
qed

lemma row_raises_tag:
  "row_raises y m (RowTag cols) =
     (case extract_row y m cols of
        Inl e \<Rightarrow> True | Inr None \<Rightarrow> False | Inr (Some r) \<Rightarrow> list_ex refused r)"
  by (simp add: row_raises_def)

lemma row_raises_iff:
  "row_raises y m r =
     (\<not> complete_row r \<or> (\<exists>cols fs. r = RowTag cols \<and> extract_row y m cols = Inr (Some fs) \<and> list_ex refused fs))"
proof (cases r)
  case NotTag
  then show ?thesis by (simp add: row_raises_def)
next
  case (RowTag cols)
  show ?thesis
    using extract_row_raises [of y m cols] RowTag
    by (cases "extract_row y m cols") (auto simp: row_raises_tag split: option.splits)
qed

lemma process_rows_raises:
  "(fst (process_rows y m rows sheet half) = None) = (\<not> list_ex (row_raises y m) rows)"
proof (induction rows arbitrary: sheet half)
  case Nil
  then show ?case by simp
next
  case (Cons r rows)
  show ?case
  proof (cases r)
    case NotTag
    then show ?thesis using Cons by (simp add: row_raises_def)
  next
    case (RowTag cols)
    show ?thesis
    proof (cases "extract_row y m cols")
      case (Inl e)
      then show ?thesis using RowTag by (simp add: row_raises_tag)
    next
      case (Inr ro)
      show ?thesis
      proof (cases ro)
        case None
        then show ?thesis using RowTag Inr Cons by (simp add: row_raises_tag)
      next
        case (Some rw)
        show ?thesis
        proof (cases "list_ex refused rw")
          case True
          from sheet_append_fail [OF True, of sheet half]
          obtain cells where "sheet_append rw sheet half = (Some IllegalCharacterError, sheet, cells)"
            by blast
          then show ?thesis using RowTag Inr Some True by (simp add: row_raises_tag)
        next
          case False
          then show ?thesis using RowTag Inr Some Cons
            by (simp add: row_raises_tag sheet_append_ok)
        qed
      qed
    qed
  qed
qed

lemma process_rows_no_raise:
  "\<not> list_ex (row_raises y m) rows \<Longrightarrow> fst (process_rows y m rows sheet half) = None"
  by (simp add: process_rows_raises)


lemma process_rows_half:
  "\<not> list_ex (row_raises y m) rows \<Longrightarrow> snd (snd (process_rows y m rows sheet [])) = []"
proof (induction rows arbitrary: sheet)
  case Nil
  then show ?case by simp
next
  case (Cons r rows)
  from Cons.prems have rest: "\<not> list_ex (row_raises y m) rows" and here: "\<not> row_raises y m r"
    by simp_all
  show ?case
  proof (cases r)
    case NotTag
    then show ?thesis using Cons.IH [OF rest] by simp
  next
    case (RowTag cols)
    show ?thesis
    proof (cases "extract_row y m cols")
      case (Inl e)
      then show ?thesis using here RowTag by (simp add: row_raises_tag)
    next
      case (Inr ro)
      show ?thesis
      proof (cases ro)
        case None
        then show ?thesis using RowTag Inr Cons.IH [OF rest] by simp
      next
        case (Some rw)
        have ok: "\<not> list_ex refused rw" using here RowTag Inr Some by (simp add: row_raises_tag)
        show ?thesis using RowTag Inr Some Cons.IH [OF rest]
          by (simp add: sheet_append_ok [OF ok])
      qed
    qed
  qed
qed

lemma fetch_accepted:
  assumes "py_int year = Some y" "year_in_range e y" "py_int month = Some m"
    "month_in_range e y m" "active (opened_book file w) = Some sheet"
  shows "fetch_weather_data e file city year month w =
           fetch_page e file city year (pad_month month) (opened_book file w) sheet (opened_world file w)"
  using assms
  by (auto simp: fetch_weather_data_def opened_book_def opened_world_def new_workbook_def
           load_workbook_def split: file_arg.splits option.splits)

lemma month_accepted_iff:
  "month_accepted e year month =
     (\<exists>y m. py_int year = Some y \<and> year_in_range e y \<and> py_int month = Some m \<and> month_in_range e y m)"
  by (auto simp: month_accepted_def split: option.splits)

lemma fetch_refused:
  assumes "\<not> month_accepted e year month"
  shows "snd (fetch_weather_data e file city year month w) = (given_book file, w)"
  using assms
  by (auto simp: fetch_weather_data_def month_accepted_def split: option.splits)

text \<open>
  Claim C4. When the year is below 2011 or above the current year, or the month is below 1,
  above 12, or later than the current month of the current year, the call logs the error
  and returns with the world as it was: no file created, loaded or saved, no request
  made, and the workbook it was given untouched.
\<close>

theorem validation_failure_no_effect:
  assumes "py_int year = Some y"
    and "y < 2011 \<or> now_year e < y
         \<or> (py_int month = Some m \<and> (m < 1 \<or> 12 < m \<or> (y = now_year e \<and> now_month e < m)))"
  shows "fetch_weather_data e file city year month w =
           (Inr (if y < 2011 \<or> now_year e < y then YearOutOfRange else MonthOutOfRange),
            given_book file, w)"
  using assms
  by (auto simp: fetch_weather_data_def year_in_range_def month_in_range_def)

lemma workbook_update: "(wb::workbook)\<lparr>active := x, half_row := h\<rparr> = \<lparr>active = x, half_row = h\<rparr>"
  by (cases wb) simp

lemma fetch_page_result:
  "fetch_page e file city year month wb sheet w =
     (case web e (page_url city year month) of
        None \<Rightarrow> (Inl ConnectionError, Some wb, w\<lparr>requested := requested w @ [page_url city year month]\<rparr>)
      | Some resp \<Rightarrow>
          if status_code resp = 200 then
            (case table resp of
               None \<Rightarrow> (Inr TableNotFound, Some wb, w\<lparr>requested := requested w @ [page_url city year month]\<rparr>)
             | Some rows \<Rightarrow>
                 (case process_rows year month (drop 1 rows) [] (half_row wb) of
                    (Some err, new, h) \<Rightarrow>
                      (Inl err, Some \<lparr>active = Some (sheet @ new), half_row = h\<rparr>,
                       w\<lparr>requested := requested w @ [page_url city year month]\<rparr>)
                  | (None, new, h) \<Rightarrow>
                      (Inr Done, Some \<lparr>active = Some (sheet @ new), half_row = h\<rparr>,
                       (case file of
                          FileName f \<Rightarrow>
                            save (data_path f) \<lparr>active = Some (sheet @ new), half_row = h\<rparr>
                              (w\<lparr>requested := requested w @ [page_url city year month]\<rparr>)
                        | Book b \<Rightarrow> w\<lparr>requested := requested w @ [page_url city year month]\<rparr>))))
          else (Inr PageUnavailable, Some wb, w\<lparr>requested := requested w @ [page_url city year month]\<rparr>))"
proof (cases "web e (page_url city year month)")
  case None
  then show ?thesis by (simp add: fetch_page_def)
next
  case (Some resp)
  show ?thesis
  proof (cases "table resp")
    case None
    then show ?thesis using Some by (simp add: fetch_page_def)
  next
    case tbl: (Some rows)
    obtain err new h where p: "process_rows year month (drop 1 rows) [] (half_row wb) = (err, new, h)"
      by (cases "process_rows year month (drop 1 rows) [] (half_row wb)") auto
    have q: "process_rows year month (drop 1 rows) sheet (half_row wb) = (err, sheet @ new, h)"
      using process_rows_append [of year month "drop 1 rows" sheet "half_row wb"] p by simp
    show ?thesis
      unfolding fetch_page_def Let_def Some tbl option.case q p prod.case
      by (cases err) (simp_all add: workbook_update split: file_arg.splits)
  qed
qed

lemma opened_file_half: "half_row (opened_book (FileName f) w) = []"
  by (simp add: opened_book_def load_workbook_def new_workbook_def reloaded_def split: option.splits)

lemma fetch_sheet:
  assumes a: "active (opened_book file w) = Some sheet"
    and b: "fst (snd (fetch_weather_data e file city year month w)) = Some wb'"
  shows "\<exists>new. active wb' = Some (sheet @ new)
           \<and> (new = [] \<or>
               (\<exists>resp rows. web e (page_url city year (pad_month month)) = Some resp
                  \<and> table resp = Some rows
                  \<and> new = fst (snd (process_rows year (pad_month month) (drop 1 rows) []
                                      (half_row (opened_book file w))))))"
proof (cases "month_accepted e year month")
  case False
  have "snd (fetch_weather_data e file city year month w) = (given_book file, w)"
    using False by (rule fetch_refused)
  with b have "given_book file = Some wb'" by simp
  then have "opened_book file w = wb'" by (cases "file") (auto simp: given_book_def opened_book_def)
  then show ?thesis using a by simp
next
  case True
  then obtain y m where v: "py_int year = Some y" "year_in_range e y" "py_int month = Some m"
    "month_in_range e y m" unfolding month_accepted_iff by blast
  note eq = fetch_accepted [OF v a]
  show ?thesis
  proof (cases "web e (page_url city year (pad_month month))")
    case None
    then show ?thesis using b a unfolding eq fetch_page_result by simp
  next
    case (Some resp)
    show ?thesis
    proof (cases "status_code resp = 200 \<and> table resp \<noteq> None")
      case False
      then show ?thesis using Some b a unfolding eq fetch_page_result
        by (auto split: option.splits if_splits)
    next
      case True
      then obtain rows where t: "status_code resp = 200" "table resp = Some rows" by auto
      obtain err new h where p:
        "process_rows year (pad_month month) (drop 1 rows) [] (half_row (opened_book file w)) = (err, new, h)"
        by (cases "process_rows year (pad_month month) (drop 1 rows) [] (half_row (opened_book file w))") auto
      have "active wb' = Some (sheet @ new)"
        using b Some t p unfolding eq fetch_page_result by (cases err) auto
      moreover have "new = fst (snd (process_rows year (pad_month month) (drop 1 rows) []
                                      (half_row (opened_book file w))))"
        using p by simp
      ultimately show ?thesis using Some t by blast
    qed
  qed
qed

lemma fetch_book_step:
  assumes r: "fetch_weather_data e (Book wb) city year month w = (Inr l, b, w')"
    and a: "active wb = Some sheet" and h: "half_row wb = []"
  shows "b = Some \<lparr>active = Some (sheet @ month_rows e city year month), half_row = []\<rparr>
         \<and> files w' = files w \<and> saved w' = saved w
         \<and> requested w' = requested w @
              (if month_accepted e year month then [page_url city year (pad_month month)] else [])"
proof (cases "month_accepted e year month")
  case False
  have "snd (fetch_weather_data e (Book wb) city year month w) = (given_book (Book wb), w)"
    using False by (rule fetch_refused)
  with r have "b = Some wb" "w' = w" by (simp_all add: given_book_def)
  moreover have "\<lparr>active = Some sheet, half_row = []\<rparr> = wb" using a h by (cases wb) simp
  ultimately show ?thesis using False by (simp add: month_rows_def)
next
  case True
  then obtain y m where v: "py_int year = Some y" "year_in_range e y" "py_int month = Some m"
    "month_in_range e y m" unfolding month_accepted_iff by blast
  have wbeq: "\<lparr>active = Some sheet, half_row = []\<rparr> = wb" using a h by (cases wb) simp
  have ob: "active (opened_book (Book wb) w) = Some sheet" using a by (simp add: opened_book_def)
  have eq: "fetch_weather_data e (Book wb) city year month w =
          fetch_page e (Book wb) city year (pad_month month) wb sheet w"
    using fetch_accepted [OF v ob] by (simp add: opened_book_def opened_world_def)
  show ?thesis
  proof (cases "web e (page_url city year (pad_month month))")
    case None
    then show ?thesis using r unfolding eq fetch_page_result by simp
  next
    case (Some resp)
    show ?thesis
    proof (cases "status_code resp = 200 \<and> table resp \<noteq> None")
      case False
      then show ?thesis using Some r True wbeq unfolding eq fetch_page_result
        by (auto simp: month_rows_def split: option.splits if_splits)
    next
      case t: True
      then obtain rows where t: "status_code resp = 200" "table resp = Some rows" by auto
      obtain err new hh where p:
        "process_rows year (pad_month month) (drop 1 rows) [] [] = (err, new, hh)"
        by (cases "process_rows year (pad_month month) (drop 1 rows) [] []") auto
      have e: "err = None" using r Some t p h unfolding eq fetch_page_result by (cases err) auto
      have "\<not> list_ex (row_raises year (pad_month month)) (drop 1 rows)"
        using process_rows_raises [of year "pad_month month" "drop 1 rows" "[]" "[]"] p e by simp
      from process_rows_half [OF this, of "[]"] have hh: "hh = []" using p by simp
      have mr: "month_rows e city year month = new"
        using True Some t p by (simp add: month_rows_def)
      show ?thesis using r Some t p e hh h True mr unfolding eq fetch_page_result by auto
    qed
  qed
qed

lemma fetch_months_run:
  assumes "fetch_months e city year ms wb w = (None, wb', w')" "active wb = Some sheet"
    "half_row wb = []"
  shows "wb' = \<lparr>active = Some (sheet @ concat (map (\<lambda>m. month_rows e city year (py_str m)) ms)),
                 half_row = []\<rparr>
         \<and> files w' = files w \<and> saved w' = saved w
         \<and> requested w' = requested w @
              map (\<lambda>m. page_url city year (pad_month (py_str m)))
                (filter (\<lambda>m. month_accepted e year (py_str m)) ms)"
  using assms
proof (induction ms arbitrary: wb w sheet)
  case Nil
  then show ?case by (cases wb) simp
next
  case (Cons m ms)
  obtain res b w1 where st: "fetch_weather_data e (Book wb) city year (py_str m) w = (res, b, w1)"
    by (cases "fetch_weather_data e (Book wb) city year (py_str m) w") auto
  from Cons.prems(1) st obtain l where l: "res = Inr l" by (cases res) auto
  note step = fetch_book_step [OF st [unfolded l] Cons.prems(2) Cons.prems(3)]
  let ?wb1 = "\<lparr>active = Some (sheet @ month_rows e city year (py_str m)), half_row = []\<rparr>"
  have b: "b = Some ?wb1" using step by simp
  have run: "fetch_months e city year ms ?wb1 w1 = (None, wb', w')"
    using Cons.prems(1) st l b by simp
  have act: "active ?wb1 = Some (sheet @ month_rows e city year (py_str m))" by simp
  have hf: "half_row ?wb1 = []" by simp
  note ih = Cons.IH [OF run act hf]
  show ?case using ih step by simp
qed

lemma fetch_book_no_raise:
  assumes "\<not> page_raises e city year month" "active wb = Some sheet"
  shows "\<exists>l. fst (fetch_weather_data e (Book wb) city year month w) = Inr l"
proof -
  have c: "\<And>rows. \<not> list_ex (row_raises year (pad_month month)) rows \<Longrightarrow>
             \<exists>new h. process_rows year (pad_month month) rows [] (half_row wb) = (None, new, h)"
  proof -
    fix rows assume "\<not> list_ex (row_raises year (pad_month month)) rows"
    from process_rows_no_raise [OF this, of "[]" "half_row wb"]
    show "\<exists>new h. process_rows year (pad_month month) rows [] (half_row wb) = (None, new, h)"
      by (cases "process_rows year (pad_month month) rows [] (half_row wb)") auto
  qed
  show ?thesis
    using assms
    unfolding fetch_weather_data_def fetch_page_result page_raises_def
    by (auto split: option.splits dest!: c)
qed

lemma fetch_book_raises:
  assumes "active wb = Some sheet"
  shows "(\<exists>err. fst (fetch_weather_data e (Book wb) city year month w) = Inl err) =
           page_raises e city year month"
proof (cases "page_raises e city year month")
  case False
  then show ?thesis using fetch_book_no_raise [OF False assms, of w] by auto
next
  case True
  have c: "\<And>rows. list_ex (row_raises year (pad_month month)) rows \<Longrightarrow>
             \<exists>err new h. process_rows year (pad_month month) rows [] (half_row wb) = (Some err, new, h)"
  proof -
    fix rows assume "list_ex (row_raises year (pad_month month)) rows"
    then have "fst (process_rows year (pad_month month) rows [] (half_row wb)) \<noteq> None"
      using process_rows_raises [of year "pad_month month" rows "[]" "half_row wb"] by simp
    then show "\<exists>err new h. process_rows year (pad_month month) rows [] (half_row wb) = (Some err, new, h)"
      by (cases "process_rows year (pad_month month) rows [] (half_row wb)") auto
  qed
  show ?thesis
    using True assms
    unfolding fetch_weather_data_def fetch_page_result page_raises_def
    by (auto split: option.splits dest!: c)
qed

lemma fetch_months_no_raise:
  assumes "\<forall>m \<in> set ms. \<not> page_raises e city year (py_str m)" "active wb = Some sheet"
    "half_row wb = []"
  shows "fst (fetch_months e city year ms wb w) = None"
  using assms
proof (induction ms arbitrary: wb w sheet)
  case Nil
  then show ?case by simp
next
  case (Cons m ms)
  from Cons.prems have nr: "\<not> page_raises e city year (py_str m)" by simp
  obtain l where l: "fst (fetch_weather_data e (Book wb) city year (py_str m) w) = Inr l"
    using fetch_book_no_raise [OF nr Cons.prems(2)] by blast
  obtain b w1 where st: "fetch_weather_data e (Book wb) city year (py_str m) w = (Inr l, b, w1)"
    using l by (cases "fetch_weather_data e (Book wb) city year (py_str m) w") auto
  note step = fetch_book_step [OF st Cons.prems(2) Cons.prems(3)]
  let ?wb1 = "\<lparr>active = Some (sheet @ month_rows e city year (py_str m)), half_row = []\<rparr>"
  have act: "active ?wb1 = Some (sheet @ month_rows e city year (py_str m))" by simp
  have hf: "half_row ?wb1 = []" by simp
  have rest: "\<forall>m \<in> set ms. \<not> page_raises e city year (py_str m)" using Cons.prems(1) by simp
  have "fst (fetch_months e city year ms ?wb1 w1) = None"
    by (rule Cons.IH [OF rest act hf])
  then show ?case using st step by simp
qed

text \<open>
  Claim C6, amended. If no call of the twelve raises an exception, the run returns; the
  requests are those of the accepted months, in ascending order; the sheet saved at the
  end is the opened sheet followed by the rows of the months 1 to 12 in this order, a
  month that is refused, gets a status other than 200 or has no table adding none; and
  the saves of the run are one at the end, after one of the header-only workbook when
  the dataset did not exist.
\<close>

theorem year_run_months_and_saves:
  assumes nr: "\<forall>m \<in> set [1..<13]. \<not> page_raises e city year (py_str m)"
    and a: "active (opened_book (FileName file) w) = Some sheet"
  shows "fst (fetch_weather_data_year e file city year w) = Inr ()
         \<and> files (snd (fetch_weather_data_year e file city year w)) =
           (files w)(data_path file \<mapsto>
              \<lparr>active = Some (sheet @ concat (map (\<lambda>m. month_rows e city year (py_str m)) [1..<13])),
               half_row = []\<rparr>)
         \<and> requested (snd (fetch_weather_data_year e file city year w)) =
             requested w @ map (\<lambda>m. page_url city year (pad_month (py_str m)))
                             (filter (\<lambda>m. month_accepted e year (py_str m)) [1..<13])
         \<and> saved (snd (fetch_weather_data_year e file city year w)) =
             saved w @ (if files w (data_path file) = None then [data_path file] else [])
                     @ [data_path file]"
proof -
  let ?wb = "opened_book (FileName file) w" and ?w1 = "opened_world (FileName file) w"
  have hf: "half_row ?wb = []" by (rule opened_file_half)
  have none: "fst (fetch_months e city year [1..<13] ?wb ?w1) = None"
    by (rule fetch_months_no_raise [OF nr a hf])
  obtain wb' w2 where run: "fetch_months e city year [1..<13] ?wb ?w1 = (None, wb', w2)"
    using none by (cases "fetch_months e city year [1..<13] ?wb ?w1") auto
  have unf: "fetch_weather_data_year e file city year w = (Inr (), save (data_path file) wb' w2)"
    using run
    by (auto simp: fetch_weather_data_year_def opened_book_def opened_world_def load_workbook_def
          split: option.splits)
  note m = fetch_months_run [OF run a hf]
  have f1: "(files ?w1)(data_path file \<mapsto> wb') = (files w)(data_path file \<mapsto> wb')"
    by (auto simp: opened_world_def save_def split: option.splits)
  have s1: "saved ?w1 = saved w @ (if files w (data_path file) = None then [data_path file] else [])"
    by (auto simp: opened_world_def save_def split: option.splits)
  have r1: "requested ?w1 = requested w"
    by (auto simp: opened_world_def save_def split: option.splits)
  show ?thesis
    unfolding unf using m f1 s1 r1 by (simp add: save_def)
qed

text \<open>
  Claim C5, amended. With a valid year and month and a status other than 200, the call
  logs that the page is unavailable and appends no row: the workbook is the one it
  opened. A workbook object, or a file that exists, leaves the files and the list of
  saves unchanged. A file name without a file has by then been created and saved with
  the header row only, and stays so.
\<close>

theorem page_unavailable_effects:
  assumes v: "py_int year = Some y" "year_in_range e y" "py_int month = Some m" "month_in_range e y m"
    and a: "active (opened_book file w) = Some sheet"
    and r: "web e (page_url city year (pad_month month)) = Some resp"
    and s: "status_code resp \<noteq> 200"
  shows "fetch_weather_data e file city year month w =
           (Inr PageUnavailable, Some (opened_book file w),
            (opened_world file w)\<lparr>requested := requested w @ [page_url city year (pad_month month)]\<rparr>)
         \<and> saved (opened_world file w) =
             (case file of
                Book b \<Rightarrow> saved w
              | FileName f \<Rightarrow> if files w (data_path f) = None then saved w @ [data_path f] else saved w)
         \<and> files (opened_world file w) =
             (case file of
                Book b \<Rightarrow> files w
              | FileName f \<Rightarrow>
                  if files w (data_path f) = None then (files w)(data_path f \<mapsto> new_workbook)
                  else files w)"
proof -
  have rq: "requested (opened_world file w) = requested w"
    by (auto simp: opened_world_def save_def split: file_arg.splits option.splits)
  have 1: "fetch_weather_data e file city year month w =
           (Inr PageUnavailable, Some (opened_book file w),
            (opened_world file w)\<lparr>requested := requested w @ [page_url city year (pad_month month)]\<rparr>)"
    unfolding fetch_accepted [OF v a] fetch_page_result using r s rq by simp
  have 2: "saved (opened_world file w) =
             (case file of
                Book b \<Rightarrow> saved w
              | FileName f \<Rightarrow> if files w (data_path f) = None then saved w @ [data_path f] else saved w)"
    by (auto simp: opened_world_def save_def split: file_arg.splits option.splits)
  have 3: "files (opened_world file w) =
             (case file of
                Book b \<Rightarrow> files w
              | FileName f \<Rightarrow>
                  if files w (data_path f) = None then (files w)(data_path f \<mapsto> new_workbook)
                  else files w)"
    by (auto simp: opened_world_def save_def split: file_arg.splits option.splits)
  show ?thesis using 1 2 3 by blast
qed


lemma process_rows_skip:
  assumes "re_match date_pattern c0 = None"
  shows "process_rows year month (before @ RowTag (c0 # cs) # after) sheet half =
         process_rows year month (before @ after) sheet half"
proof (induction before arbitrary: sheet half)
  case Nil
  then show ?case using assms by (simp add: extract_row_skip)
next
  case (Cons r before)
  show ?case
  proof (cases r)
    case NotTag
    then show ?thesis using Cons by simp
  next
    case (RowTag cols)
    then show ?thesis using Cons
      by (cases "extract_row year month cols") (auto split: option.splits prod.splits)
  qed
qed

text \<open>
  Claim C1, amended. A row is passed over exactly when its date cell does not begin with a
  match of the regular expression: the row gives no record, and the loop goes on as if the
  row were not in the table, so the rows before and after it are extracted as without it.
  A row gives a record only if its date cell matches. The groups of the expression are
  any characters but the line feed, not only digits: the cell matches exactly when it
  reads \<open>a Y b M d D t\<close> with \<open>Y\<close>, \<open>M\<close>, \<open>D\<close> the three literal characters and no line
  feed in \<open>a\<close>, \<open>b\<close>, \<open>d\<close>.
\<close>

theorem date_mismatch_skips_row:
  "(re_match date_pattern c0 = None \<longrightarrow>
      extract_row year month (c0 # cs) = Inr None
      \<and> process_rows year month (before @ RowTag (c0 # cs) # after) sheet half =
          process_rows year month (before @ after) sheet half)
   \<and> (extract_row year month cols = Inr (Some r) \<longrightarrow>
        (\<exists>c cs' g. cols = c # cs' \<and> re_match date_pattern c = Some g))
   \<and> ((re_match date_pattern c0 = None) =
        (\<not> (\<exists>a b d t. c0 = a @ 24180 # b @ 26376 # d @ 26085 # t
                \<and> 10 \<notin> set a \<and> 10 \<notin> set b \<and> 10 \<notin> set d)))"
proof (intro conjI impI)
  assume "re_match date_pattern c0 = None"
  then show "extract_row year month (c0 # cs) = Inr None" by (rule extract_row_skip)
next
  assume "re_match date_pattern c0 = None"
  then show "process_rows year month (before @ RowTag (c0 # cs) # after) sheet half =
          process_rows year month (before @ after) sheet half" by (rule process_rows_skip)
next
  assume "extract_row year month cols = Inr (Some r)"
  then show "\<exists>c cs' g. cols = c # cs' \<and> re_match date_pattern c = Some g"
    using extract_row_Some by blast
next
  show "(re_match date_pattern c0 = None) =
        (\<not> (\<exists>a b d t. c0 = a @ 24180 # b @ 26376 # d @ 26085 # t
                \<and> 10 \<notin> set a \<and> 10 \<notin> set b \<and> 10 \<notin> set d))"
    using date_match_iff [of c0] by blast
qed



lemma stored_row_nth:
  "i < length r \<Longrightarrow> r ! i = CStr s \<Longrightarrow> (stored_row r @ t) ! i = CStr (take 32767 s)"
  by (simp add: stored_row_def nth_append)

lemma process_rows_fields:
  "r \<in> set (fst (snd (process_rows year month rows sheet half))) \<Longrightarrow>
     r \<in> set sheet \<or>
     (\<exists>c0 cs g. RowTag (c0 # cs) \<in> set rows \<and> re_match date_pattern c0 = Some g
        \<and> r ! 0 = CStr (take 32767 year) \<and> r ! 1 = CStr (take 32767 (lstrip [48] month))
        \<and> r ! 2 = CStr (take 32767 (lstrip [48] (g ! 2))))"
proof (induction rows arbitrary: sheet half)
  case Nil
  then show ?case by simp
next
  case (Cons x rows)
  show ?case
  proof (cases x)
    case NotTag
    then show ?thesis using Cons.prems Cons.IH [of sheet half] by auto
  next
    case (RowTag cols)
    show ?thesis
    proof (cases "extract_row year month cols")
      case (Inl e)
      then show ?thesis using RowTag Cons.prems by simp
    next
      case (Inr ro)
      show ?thesis
      proof (cases ro)
        case None
        then show ?thesis using RowTag Inr Cons.prems Cons.IH [of sheet half] by auto
      next
        case (Some rw)
        from extract_row_Some [OF Inr [unfolded Some]]
        obtain c0 c1 c2 c3 cs g where c: "cols = c0 # c1 # c2 # c3 # cs"
          and g: "re_match date_pattern c0 = Some g" by blast
        have rw: "length rw = 9 \<and> rw ! 0 = CStr year \<and> rw ! 1 = CStr (lstrip [48] month)
                  \<and> rw ! 2 = CStr (lstrip [48] (g ! 2))"
          using Inr Some extract_row_ok [OF g, of year month c1 c2 c3 cs] c by auto
        show ?thesis
        proof (cases "list_ex refused rw")
          case True
          from sheet_append_fail [OF True, of sheet half]
          obtain cells where "sheet_append rw sheet half = (Some IllegalCharacterError, sheet, cells)"
            by blast
          then show ?thesis using RowTag Inr Some Cons.prems by simp
        next
          case False
          let ?row = "stored_row rw @ drop (length rw) half"
          have row: "?row ! 0 = CStr (take 32767 year) \<and> ?row ! 1 = CStr (take 32767 (lstrip [48] month))
                  \<and> ?row ! 2 = CStr (take 32767 (lstrip [48] (g ! 2)))"
            using rw stored_row_nth [of _ rw] by simp
          have "r \<in> set (fst (snd (process_rows year month rows (sheet @ [?row]) [])))"
            using Cons.prems RowTag Inr Some by (simp add: sheet_append_ok [OF False])
          from Cons.IH [OF this] show ?thesis using row g c RowTag by auto
        qed
      qed
    qed
  qed
qed

text \<open>
  Claim C10. Every row that a call appends holds the call's year argument in its first
  cell and the call's month argument, padded and with the leading zeros stripped again, in
  its second; its third cell is the third group of the match of the date cell of a row of
  the requested page, without its leading zeros. The first two groups of the match are
  not stored. The sheet cuts every value to 32767 characters.
\<close>

theorem record_year_month_from_arguments:
  assumes a: "active (opened_book file w) = Some sheet"
    and b: "fst (snd (fetch_weather_data e file city year month w)) = Some wb'"
  shows "\<exists>new. active wb' = Some (sheet @ new)
           \<and> (\<forall>r \<in> set new.
                 r ! 0 = CStr (take 32767 year)
                 \<and> r ! 1 = CStr (take 32767 (lstrip [48] (pad_month month)))
                 \<and> (\<exists>resp rows c0 cs g.
                       web e (page_url city year (pad_month month)) = Some resp
                       \<and> table resp = Some rows
                       \<and> RowTag (c0 # cs) \<in> set (drop 1 rows)
                       \<and> re_match date_pattern c0 = Some g
                       \<and> r ! 2 = CStr (take 32767 (lstrip [48] (g ! 2)))))"
proof -
  from fetch_sheet [OF a b] obtain new where n: "active wb' = Some (sheet @ new)"
    and c: "new = [] \<or>
               (\<exists>resp rows. web e (page_url city year (pad_month month)) = Some resp
                  \<and> table resp = Some rows
                  \<and> new = fst (snd (process_rows year (pad_month month) (drop 1 rows) []
                                      (half_row (opened_book file w)))))"
    by blast
  have "\<forall>r \<in> set new.
                 r ! 0 = CStr (take 32767 year)
                 \<and> r ! 1 = CStr (take 32767 (lstrip [48] (pad_month month)))
                 \<and> (\<exists>resp rows c0 cs g.
                       web e (page_url city year (pad_month month)) = Some resp
                       \<and> table resp = Some rows
                       \<and> RowTag (c0 # cs) \<in> set (drop 1 rows)
                       \<and> re_match date_pattern c0 = Some g
                       \<and> r ! 2 = CStr (take 32767 (lstrip [48] (g ! 2))))"
  proof (cases "new = []")
    case True
    then show ?thesis by simp
  next
    case False
    with c obtain resp rows where w: "web e (page_url city year (pad_month month)) = Some resp"
      and t: "table resp = Some rows"
      and nw: "new = fst (snd (process_rows year (pad_month month) (drop 1 rows) []
                                      (half_row (opened_book file w))))"
      by blast
    show ?thesis
    proof
      fix r assume "r \<in> set new"
      then have "r \<in> set (fst (snd (process_rows year (pad_month month) (drop 1 rows) []
                                      (half_row (opened_book file w)))))"
        using nw by simp
      from process_rows_fields [OF this]
      obtain c0 cs g where "RowTag (c0 # cs) \<in> set (drop 1 rows)" "re_match date_pattern c0 = Some g"
        "r ! 0 = CStr (take 32767 year)" "r ! 1 = CStr (take 32767 (lstrip [48] (pad_month month)))"
        "r ! 2 = CStr (take 32767 (lstrip [48] (g ! 2)))"
        by auto
      with w t show "r ! 0 = CStr (take 32767 year)
                 \<and> r ! 1 = CStr (take 32767 (lstrip [48] (pad_month month)))
                 \<and> (\<exists>resp rows c0 cs g.
                       web e (page_url city year (pad_month month)) = Some resp
                       \<and> table resp = Some rows
                       \<and> RowTag (c0 # cs) \<in> set (drop 1 rows)
                       \<and> re_match date_pattern c0 = Some g
                       \<and> r ! 2 = CStr (take 32767 (lstrip [48] (g ! 2))))"
        by blast
    qed
  qed
  with n show ?thesis by blast
qed

text \<open>
  Claim C2. Fetching year \<open>2023\<close>, month \<open>3\<close> (on a day when that month is not in the
  future) from a page whose table holds, after its head row, the one row with date cell
  \<open>2023 Y 3 M 5 D\<close>, the condition, temperature and wind cells of the example: the call
  appends exactly one record to the sheet, with year 2023, month 3, day 5, the two
  conditions, the temperatures \<open>10\<close> and \<open>2\<close> without the degree sign, and the two winds.
  All values are stored as strings. A workbook object in which an earlier append stopped
  halfway keeps in that row the cells it holds beyond the ninth column; a workbook that
  was created or read from its file has none.
\<close>

theorem example_row_extracted:
  assumes "2023 \<le> now_year e" and "now_year e = 2023 \<longrightarrow> 3 \<le> now_month e"
    and "web e (page_url city [50, 48, 50, 51] [48, 51]) =
           Some \<lparr>status_code = 200,
                 table = Some [head,
                   RowTag [[50, 48, 50, 51, 24180, 51, 26376, 53, 26085],
                           [26228, 47, 22810, 20113],
                           [49, 48, 8451, 47, 50, 8451],
                           [21271, 39118, 32, 51, 32423, 47, 21335, 39118, 32, 50, 32423]]]\<rparr>"
    and "active wb = Some sheet"
  shows "fetch_weather_data e (Book wb) city [50, 48, 50, 51] [51] w =
           (Inr Done,
            Some (wb\<lparr>active := Some (sheet @
              [[CStr [50, 48, 50, 51], CStr [51], CStr [53], CStr [26228], CStr [22810, 20113],
                CStr [49, 48], CStr [50], CStr [21271, 39118, 32, 51, 32423],
                CStr [21335, 39118, 32, 50, 32423]] @ drop 9 (half_row wb)]),
              half_row := []\<rparr>),
            w\<lparr>requested := requested w @ [page_url city [50, 48, 50, 51] [48, 51]]\<rparr>)"
proof -
  have y: "py_int [50, 48, 50, 51] = Some 2023"
    by (simp add: py_int_def to_ascii_def parse_int_def ascii_space_def ascii_digit_def digits_value_def)
  have m: "py_int [51] = Some 3"
    by (simp add: py_int_def to_ascii_def parse_int_def ascii_space_def ascii_digit_def digits_value_def)
  have yr: "year_in_range e 2023" using assms(1) by (simp add: year_in_range_def)
  have mr: "month_in_range e 2023 3" using assms(2) by (auto simp: month_in_range_def)
  have pm: "pad_month [51] = [48, 51]" by (simp add: pad_month_def)
  have ob: "active (opened_book (Book wb) w) = Some sheet" using assms(4) by (simp add: opened_book_def)
  have g: "re_match date_pattern [50, 48, 50, 51, 24180, 51, 26376, 53, 26085] = Some [[50, 48, 50, 51], [51], [53]]"
    by (simp add: date_pattern_def)
  have sp: "split_pair strip [26228, 47, 22810, 20113] = ([26228], [22810, 20113])"
        "split_pair (\<lambda>t. rstrip [8451] (strip t)) [49, 48, 8451, 47, 50, 8451] = ([49, 48], [50])"
        "split_pair strip [21271, 39118, 32, 51, 32423, 47, 21335, 39118, 32, 50, 32423]
           = ([21271, 39118, 32, 51, 32423], [21335, 39118, 32, 50, 32423])"
    by (simp_all add: split_pair_def strip_def rstrip_def isspace_def)
  have ls: "lstrip [48] [48, 51] = [51]" "lstrip [48] [53] = [53]" by (simp_all add: lstrip_def)
  let ?rec = "[CStr [50, 48, 50, 51], CStr [51], CStr [53], CStr [26228], CStr [22810, 20113],
                CStr [49, 48], CStr [50], CStr [21271, 39118, 32, 51, 32423],
                CStr [21335, 39118, 32, 50, 32423]]"
  have row: "extract_row [50, 48, 50, 51] [48, 51]
               [[50, 48, 50, 51, 24180, 51, 26376, 53, 26085], [26228, 47, 22810, 20113],
                [49, 48, 8451, 47, 50, 8451],
                [21271, 39118, 32, 51, 32423, 47, 21335, 39118, 32, 50, 32423]] =
             Inr (Some ?rec)"
    unfolding extract_row_ok [OF g] by (simp add: sp ls)
  have legal: "\<not> list_ex refused ?rec" by (simp add: refused_def illegal_char_def)
  have st: "stored_row ?rec = ?rec" by (simp add: stored_row_def)
  have len: "length ?rec = 9" by simp
  have ap: "sheet_append ?rec [] (half_row wb) = (None, [?rec @ drop 9 (half_row wb)], [])"
    using sheet_append_ok [OF legal, of "[]" "half_row wb"] unfolding st len by simp
  show ?thesis
    unfolding fetch_accepted [OF y yr m mr ob] fetch_page_result pm
    using assms(3) row ap by (simp add: opened_book_def opened_world_def workbook_update)
qed

section \<open>The counts of the charts\<close>





lemma annualize_row:
  "(k, c, a) \<in> set (annualize n counts) \<Longrightarrow> (k, c) \<in> set counts \<and> a = true_div c n"
  by (auto simp: annualize_def)











section \<open>The sort key of the force levels\<close>













lemma sort_key_empty: "get_wind_sort_key [] = Inl IndexError"
  by (simp add: get_wind_sort_key_def py_index_def)














section \<open>Concrete runs\<close>

lemmas int_eval = py_int_def to_ascii_def parse_int_def ascii_space_def ascii_digit_def digits_value_def

lemma months_list: "[1..<13] = [1, 2, 3, 4, 5, 6, 7, 8, 9, 10, 11, 12::nat]"
  by (simp add: upt_rec)

lemma month_strs:
  "map py_str [1, 2, 3, 4, 5, 6, 7, 8, 9, 10, 11, 12] =
     [[49], [50], [51], [52], [53], [54], [55], [56], [57], [49, 48], [49, 49], [49, 50]]"
  by (simp add: py_str.simps)

lemma int_ex_year: "py_int ex_year = Some 2023"
  by (simp add: ex_year_def int_eval)

lemma int_months:
  "map py_int [[49], [50], [51], [52], [53], [54], [55], [56], [57], [49, 48], [49, 49], [49, 50]] =
     map Some [1, 2, 3, 4, 5, 6, 7, 8, 9, 10, 11, 12]"
  by (simp add: int_eval)

lemma ex_matches:
  "re_match date_pattern [50, 48, 50, 51, 24180, 51, 26376, 53, 26085] = Some [[50, 48, 50, 51], [51], [53]]"
  "re_match date_pattern ex_dash_date = None"
  "re_match date_pattern ex_old_date = Some [[50, 48, 50, 48], [49], [48, 55]]"
  by (simp_all add: date_pattern_def ex_dash_date_def ex_old_date_def)

lemma ex_pairs:
  "split_pair strip ex_cond = ([26228], [22810, 20113])"
  "split_pair (\<lambda>t. rstrip [8451] (strip t)) ex_temp = ([49, 48], [50])"
  "split_pair strip ex_wind = ([21271, 39118, 32, 51, 32423], [21335, 39118, 32, 50, 32423])"
  "split_pair strip [26228] = ([], [])"
  "split_pair (\<lambda>t. rstrip [8451] (strip t)) [49, 48, 8451] = ([], [])"
  by (simp_all add: split_pair_def strip_def rstrip_def isspace_def ex_cond_def ex_temp_def ex_wind_def)

lemma ex_row_extracted: "extract_row ex_year [48, 51] ex_row = Inr (Some ex_record)"
  unfolding ex_row_def extract_row_ok [OF ex_matches(1)]
  by (simp add: ex_pairs lstrip_def ex_record_def ex_year_def)

lemma ex_old_row_extracted: "extract_row ex_year [48, 51] ex_old_row = Inr (Some ex_old_record)"
  unfolding ex_old_row_def extract_row_ok [OF ex_matches(3)]
  by (simp add: ex_pairs lstrip_def ex_old_record_def ex_year_def)

lemma ex_dash_row_skipped: "extract_row ex_year [48, 51] (ex_dash_date # cs) = Inr None"
  by (rule extract_row_skip [OF ex_matches(2)])

lemma ex_records_stored:
  "\<not> list_ex refused ex_record" "stored_row ex_record = ex_record"
  "\<not> list_ex refused ex_old_record" "stored_row ex_old_record = ex_old_record"
  by (simp_all add: refused_def stored_row_def illegal_char_def ex_record_def ex_old_record_def)

lemma ex_appends:
  "sheet_append ex_record sheet [] = (None, sheet @ [ex_record], [])"
  "sheet_append ex_old_record sheet [] = (None, sheet @ [ex_old_record], [])"
  using sheet_append_ok [OF ex_records_stored(1), of sheet "[]"]
    sheet_append_ok [OF ex_records_stored(3), of sheet "[]"]
  by (simp_all add: ex_records_stored)

lemma ex_rows_processed:
  "process_rows ex_year [48, 51] (drop 1 ex_rows) [] [] = (None, [ex_record, ex_old_record], [])"
  by (simp add: ex_rows_def ex_row_extracted ex_old_row_extracted ex_dash_row_skipped ex_appends)

lemma ex_rows_no_raise: "\<not> list_ex (row_raises ex_year [48, 51]) (drop 1 ex_rows)"
  by (simp add: ex_rows_def row_raises_tag ex_row_extracted ex_old_row_extracted
        ex_dash_row_skipped ex_records_stored)

lemmas ex_rows_simps = ex_rows_processed [simplified] ex_rows_no_raise [simplified]

lemma ex_world_opened:
  "opened_book (FileName ex_file) ex_world = new_workbook"
  "active (opened_book (FileName ex_file) ex_world) = Some [header_row]"
  "opened_world (FileName ex_file) ex_world = save (data_path ex_file) new_workbook ex_world"
  by (simp_all add: opened_book_def opened_world_def load_workbook_def ex_world_def new_workbook_def)

lemma ex_env_clock: "year_in_range ex_env 2023" "month_in_range ex_env 2023 1"
  "month_in_range ex_env 2023 2" "month_in_range ex_env 2023 3"
  by (simp_all add: year_in_range_def month_in_range_def ex_env_def)

lemma ex_env_now: "now_year ex_env = 2023" "now_month ex_env = 3"
  by (simp_all add: ex_env_def)

lemma ex_env_pages:
  "web ex_env (page_url ex_city ex_year [48, 51]) = Some \<lparr>status_code = 200, table = Some ex_rows\<rparr>"
  "web ex_env (page_url ex_city ex_year [48, 50]) = Some \<lparr>status_code = 404, table = None\<rparr>"
  "web ex_env (page_url ex_city ex_year [48, 49]) = Some \<lparr>status_code = 404, table = None\<rparr>"
  by (simp_all add: ex_env_def page_url_def)

lemma ex_accepted:
  "map (\<lambda>m. month_accepted ex_env ex_year (py_str m)) [1, 2, 3, 4, 5, 6, 7, 8, 9, 10, 11, 12] =
     [True, True, True, False, False, False, False, False, False, False, False, False]"
  using int_months month_strs
  by (simp add: month_accepted_def int_ex_year year_in_range_def month_in_range_def ex_env_def)

lemma ex_month_rows:
  "map (\<lambda>m. month_rows ex_env ex_city ex_year (py_str m)) [1, 2, 3, 4, 5, 6, 7, 8, 9, 10, 11, 12] =
     [[], [], [ex_record, ex_old_record], [], [], [], [], [], [], [], [], []]"
  using ex_accepted month_strs
  by (simp add: month_rows_def pad_month_def ex_env_pages ex_rows_simps)

lemma ex_no_raise:
  "\<forall>m \<in> set [1..<13]. \<not> page_raises ex_env ex_city ex_year (py_str m)"
  unfolding months_list
  using int_months month_strs
  by (simp add: page_raises_def int_ex_year year_in_range_def month_in_range_def pad_month_def
        ex_env_pages ex_rows_simps ex_env_now)

text \<open>A date cell whose three groups are letters is not of the numeric pattern, and its row gives a record: the claim C1 as worded fails.\<close>

theorem non_numeric_date_appended:
  "\<not> spec_numeric_date [97, 24180, 98, 26376, 99, 26085]
   \<and> extract_row ex_year [48, 51] [[97, 24180, 98, 26376, 99, 26085], ex_cond, ex_temp, ex_wind] =
       Inr (Some (map CStr
         [[50, 48, 50, 51], [51], [99], [26228], [22810, 20113], [49, 48], [50],
          [21271, 39118, 32, 51, 32423], [21335, 39118, 32, 50, 32423]]))"
proof -
  have g: "re_match date_pattern [97, 24180, 98, 26376, 99, 26085] = Some [[97], [98], [99]]"
    by (simp add: date_pattern_def)
  have 1: "\<not> spec_numeric_date [97, 24180, 98, 26376, 99, 26085]"
    by (simp add: spec_numeric_date_def ascii_digit_def)
  have 2: "extract_row ex_year [48, 51] [[97, 24180, 98, 26376, 99, 26085], ex_cond, ex_temp, ex_wind] =
       Inr (Some (map CStr
         [[50, 48, 50, 51], [51], [99], [26228], [22810, 20113], [49, 48], [50],
          [21271, 39118, 32, 51, 32423], [21335, 39118, 32, 50, 32423]]))"
    unfolding extract_row_ok [OF g] by (simp add: ex_pairs lstrip_def ex_year_def)
  show ?thesis using 1 2 by simp
qed

text \<open>The row with the date cell \<open>2023-03-05\<close> between two rows that match: it gives no record, and the two others give theirs.\<close>

theorem date_mismatch_skips_row_witness:
  "re_match date_pattern ex_dash_date = None
   \<and> extract_row ex_year [48, 51] (ex_dash_date # [ex_cond, ex_temp, ex_wind]) = Inr None
   \<and> process_rows ex_year [48, 51]
        ([RowTag ex_row] @ RowTag (ex_dash_date # [ex_cond, ex_temp, ex_wind]) # [RowTag ex_old_row]) [] [] =
      process_rows ex_year [48, 51] ([RowTag ex_row] @ [RowTag ex_old_row]) [] []
   \<and> process_rows ex_year [48, 51] ([RowTag ex_row] @ [RowTag ex_old_row]) [] [] =
      (None, [ex_record, ex_old_record], [])"
proof -
  have h: "re_match date_pattern ex_dash_date = None" by (rule ex_matches(2))
  note skip = date_mismatch_skips_row [THEN conjunct1, THEN mp, OF h]
  have 1: "extract_row ex_year [48, 51] (ex_dash_date # [ex_cond, ex_temp, ex_wind]) = Inr None"
    by (rule skip [THEN conjunct1])
  have 2: "process_rows ex_year [48, 51]
        ([RowTag ex_row] @ RowTag (ex_dash_date # [ex_cond, ex_temp, ex_wind]) # [RowTag ex_old_row]) [] [] =
      process_rows ex_year [48, 51] ([RowTag ex_row] @ [RowTag ex_old_row]) [] []"
    by (rule skip [THEN conjunct2])
  have 3: "process_rows ex_year [48, 51] ([RowTag ex_row] @ [RowTag ex_old_row]) [] [] =
      (None, [ex_record, ex_old_record], [])"
    by (simp add: ex_row_extracted ex_old_row_extracted ex_appends)
  show ?thesis using h 1 2 3 by blast
qed

text \<open>The example row on a page of its own, fetched into a new workbook.\<close>

theorem example_row_extracted_witness:
  "fetch_weather_data ex_env_one (Book new_workbook) ex_city [50, 48, 50, 51] [51] ex_world =
     (Inr Done,
      Some \<lparr>active = Some
        [header_row,
         [CStr [50, 48, 50, 51], CStr [51], CStr [53], CStr [26228], CStr [22810, 20113],
          CStr [49, 48], CStr [50], CStr [21271, 39118, 32, 51, 32423],
          CStr [21335, 39118, 32, 50, 32423]]],
        half_row = []\<rparr>,
      ex_world\<lparr>requested := requested ex_world @ [page_url ex_city [50, 48, 50, 51] [48, 51]]\<rparr>)"
proof -
  have 1: "2023 \<le> now_year ex_env_one" by (simp add: ex_env_one_def)
  have 2: "now_year ex_env_one = 2023 \<longrightarrow> 3 \<le> now_month ex_env_one" by (simp add: ex_env_one_def)
  have 3: "web ex_env_one (page_url ex_city [50, 48, 50, 51] [48, 51]) =
           Some \<lparr>status_code = 200,
                 table = Some [NotTag,
                   RowTag [[50, 48, 50, 51, 24180, 51, 26376, 53, 26085],
                           [26228, 47, 22810, 20113],
                           [49, 48, 8451, 47, 50, 8451],
                           [21271, 39118, 32, 51, 32423, 47, 21335, 39118, 32, 50, 32423]]]\<rparr>"
    by (simp add: ex_env_one_def ex_row_def ex_cond_def ex_temp_def ex_wind_def)
  have 4: "active new_workbook = Some [header_row]" by (simp add: new_workbook_def)
  have 5: "half_row new_workbook = []" by (simp add: new_workbook_def)
  show ?thesis
    using example_row_extracted [OF 1 2 3 4, of ex_world] unfolding 5
    by (simp add: new_workbook_def)
qed



text \<open>The year 2010 is refused and nothing changes.\<close>

theorem validation_failure_no_effect_witness:
  "py_int [50, 48, 49, 48] = Some 2010
   \<and> fetch_weather_data ex_env (FileName ex_file) ex_city [50, 48, 49, 48] [51] ex_world =
       (Inr YearOutOfRange, None, ex_world)"
proof -
  have y: "py_int [50, 48, 49, 48] = Some 2010" by (simp add: int_eval)
  have r: "(2010::int) < 2011 \<or> now_year ex_env < 2010
         \<or> (py_int [51] = Some (3::int) \<and> ((3::int) < 1 \<or> (12::int) < 3 \<or> (2010 = now_year ex_env \<and> now_month ex_env < 3)))"
    by simp
  show ?thesis
    using validation_failure_no_effect [OF y r, of "FileName ex_file" ex_city ex_world] y
    by (simp add: given_book_def)
qed

text \<open>A status of 404 for a file name that has no file: after the call the file exists, with the header row; the claim C5 as worded fails.\<close>

theorem page_unavailable_creates_file:
  "files ex_world (data_path ex_file) = None
   \<and> fetch_weather_data ex_env (FileName ex_file) ex_city ex_year [50] ex_world =
       (Inr PageUnavailable, Some new_workbook,
        (save (data_path ex_file) new_workbook ex_world)\<lparr>requested := [page_url ex_city ex_year [48, 50]]\<rparr>)
   \<and> files (save (data_path ex_file) new_workbook ex_world) (data_path ex_file) = Some new_workbook"
proof -
  have m: "py_int [50] = Some 2" by (simp add: int_eval)
  have 1: "files ex_world (data_path ex_file) = None" by (simp add: ex_world_def)
  have 2: "fetch_weather_data ex_env (FileName ex_file) ex_city ex_year [50] ex_world =
       (Inr PageUnavailable, Some new_workbook,
        (save (data_path ex_file) new_workbook ex_world)\<lparr>requested := [page_url ex_city ex_year [48, 50]]\<rparr>)"
    unfolding fetch_accepted [OF int_ex_year ex_env_clock(1) m ex_env_clock(3) ex_world_opened(2)]
      fetch_page_result ex_world_opened
    by (simp add: pad_month_def ex_env_pages save_def ex_world_def)
  have 3: "files (save (data_path ex_file) new_workbook ex_world) (data_path ex_file) = Some new_workbook"
    by (simp add: save_def)
  show ?thesis using 1 2 3 by blast
qed

text \<open>A status of 404 for a workbook object: no file and no save.\<close>

theorem page_unavailable_effects_witness:
  "fetch_weather_data ex_env (Book new_workbook) ex_city ex_year [50] ex_world =
     (Inr PageUnavailable, Some new_workbook,
      ex_world\<lparr>requested := [page_url ex_city ex_year [48, 50]]\<rparr>)
   \<and> saved (opened_world (Book new_workbook) ex_world) = []
   \<and> files (opened_world (Book new_workbook) ex_world) (data_path ex_file) = None"
proof -
  have m: "py_int [50] = Some 2" by (simp add: int_eval)
  have a: "active (opened_book (Book new_workbook) ex_world) = Some [header_row]"
    by (simp add: opened_book_def new_workbook_def)
  have r: "web ex_env (page_url ex_city ex_year (pad_month [50])) = Some \<lparr>status_code = 404, table = None\<rparr>"
    by (simp add: pad_month_def ex_env_pages)
  have s: "status_code \<lparr>status_code = 404, table = None\<rparr> \<noteq> 200" by simp
  show ?thesis
    using page_unavailable_effects [OF int_ex_year ex_env_clock(1) m ex_env_clock(3) a r s]
    by (simp add: opened_book_def opened_world_def pad_month_def ex_world_def)
qed

text \<open>A run on a dataset that does not exist saves twice; and on a site whose request raises, the run ends in January with that exception, without the save at the end; the claim C6 as worded fails.\<close>

theorem year_run_saves_twice_or_stops:
  "saved ex_world = []
   \<and> saved (snd (fetch_weather_data_year ex_env ex_file ex_city ex_year ex_world)) =
       [data_path ex_file, data_path ex_file]
   \<and> fst (fetch_weather_data_year ex_env_down ex_file ex_city ex_year ex_world) = Inl ConnectionError
   \<and> requested (snd (fetch_weather_data_year ex_env_down ex_file ex_city ex_year ex_world)) =
       [page_url ex_city ex_year [48, 49]]
   \<and> saved (snd (fetch_weather_data_year ex_env_down ex_file ex_city ex_year ex_world)) =
       [data_path ex_file]"
proof -
  let ?wb = "opened_book (FileName ex_file) ex_world" and ?w1 = "opened_world (FileName ex_file) ex_world"
  have f: "files ex_world (data_path ex_file) = None" by (simp add: ex_world_def)
  have l: "load_workbook (data_path ex_file) ex_world = None" by (simp add: load_workbook_def f)
  have hf: "half_row ?wb = []" by (rule opened_file_half)
  have 1: "saved ex_world = []" by (simp add: ex_world_def)
  have sw1: "saved ?w1 = [data_path ex_file]" and rw1: "requested ?w1 = []"
    unfolding ex_world_opened(3) by (simp_all add: save_def ex_world_def)
  have none: "fst (fetch_months ex_env ex_city ex_year [1..<13] ?wb ?w1) = None"
    by (rule fetch_months_no_raise [OF ex_no_raise ex_world_opened(2) hf])
  obtain wb' w2 where run: "fetch_months ex_env ex_city ex_year [1..<13] ?wb ?w1 = (None, wb', w2)"
    using none by (cases "fetch_months ex_env ex_city ex_year [1..<13] ?wb ?w1") auto
  have s2: "saved w2 = saved ?w1" using fetch_months_run [OF run ex_world_opened(2) hf] by simp
  have "fetch_weather_data_year ex_env ex_file ex_city ex_year ex_world = (Inr (), save (data_path ex_file) wb' w2)"
    using run f l by (simp add: fetch_weather_data_year_def opened_book_def opened_world_def)
  then have 2: "saved (snd (fetch_weather_data_year ex_env ex_file ex_city ex_year ex_world)) =
       [data_path ex_file, data_path ex_file]"
    using s2 sw1 by (simp add: save_def)
  have yr: "year_in_range ex_env_down 2023" and mr: "month_in_range ex_env_down 2023 1"
    by (simp_all add: year_in_range_def month_in_range_def ex_env_down_def)
  have m: "py_int (py_str 1) = Some 1" by (simp add: py_str.simps int_eval)
  have a: "active (opened_book (Book new_workbook) ?w1) = Some [header_row]"
    by (simp add: opened_book_def new_workbook_def)
  have call: "fetch_weather_data ex_env_down (Book new_workbook) ex_city ex_year (py_str 1) ?w1 =
      (Inl ConnectionError, Some new_workbook, ?w1\<lparr>requested := requested ?w1 @ [page_url ex_city ex_year [48, 49]]\<rparr>)"
    unfolding fetch_accepted [OF int_ex_year yr m mr a] fetch_page_result
    by (simp add: ex_env_down_def opened_book_def opened_world_def py_str.simps pad_month_def)
  have stop: "fetch_months ex_env_down ex_city ex_year [1..<13] new_workbook ?w1 =
      (Some ConnectionError, new_workbook, ?w1\<lparr>requested := requested ?w1 @ [page_url ex_city ex_year [48, 49]]\<rparr>)"
    unfolding months_list fetch_months.simps call by simp
  have down: "fetch_weather_data_year ex_env_down ex_file ex_city ex_year ex_world =
      (Inl ConnectionError, ?w1\<lparr>requested := requested ?w1 @ [page_url ex_city ex_year [48, 49]]\<rparr>)"
    using stop f l by (simp add: fetch_weather_data_year_def opened_world_def Let_def)
  have 3: "fst (fetch_weather_data_year ex_env_down ex_file ex_city ex_year ex_world) = Inl ConnectionError"
    and 4: "requested (snd (fetch_weather_data_year ex_env_down ex_file ex_city ex_year ex_world)) =
       [page_url ex_city ex_year [48, 49]]"
    and 5: "saved (snd (fetch_weather_data_year ex_env_down ex_file ex_city ex_year ex_world)) =
       [data_path ex_file]"
    unfolding down by (simp_all add: sw1 rw1)
  show ?thesis using 1 2 3 4 5 by blast
qed

text \<open>A run of the year 2023 in March 2023: three requests, the rows of March in the saved sheet, two saves.\<close>

theorem year_run_months_and_saves_witness:
  "fst (fetch_weather_data_year ex_env ex_file ex_city ex_year ex_world) = Inr ()
   \<and> files (snd (fetch_weather_data_year ex_env ex_file ex_city ex_year ex_world)) (data_path ex_file) =
       Some \<lparr>active = Some [header_row, ex_record, ex_old_record], half_row = []\<rparr>
   \<and> requested (snd (fetch_weather_data_year ex_env ex_file ex_city ex_year ex_world)) =
       [page_url ex_city ex_year [48, 49], page_url ex_city ex_year [48, 50],
        page_url ex_city ex_year [48, 51]]
   \<and> saved (snd (fetch_weather_data_year ex_env ex_file ex_city ex_year ex_world)) =
       [data_path ex_file, data_path ex_file]"
proof -
  note t = year_run_months_and_saves [OF ex_no_raise ex_world_opened(2)]
  have rows: "concat (map (\<lambda>m. month_rows ex_env ex_city ex_year (py_str m)) [1..<13]) =
      [ex_record, ex_old_record]"
    unfolding months_list ex_month_rows by simp
  have acc: "filter (\<lambda>m. month_accepted ex_env ex_year (py_str m)) [1..<13] = [1, 2, 3]"
    unfolding months_list using ex_accepted by simp
  have urls: "map (\<lambda>m. page_url ex_city ex_year (pad_month (py_str m))) [1, 2, 3] =
      [page_url ex_city ex_year [48, 49], page_url ex_city ex_year [48, 50],
       page_url ex_city ex_year [48, 51]]"
    by (simp add: py_str.simps pad_month_def)
  show ?thesis using t unfolding rows acc urls by (simp add: ex_world_def)
qed





text \<open>The row dated 7 January 2020 on the page of March 2023 is stored under 2023, month 3, day 7.\<close>

theorem record_year_month_from_arguments_witness:
  "fst (snd (fetch_weather_data ex_env (Book new_workbook) ex_city ex_year [51] ex_world)) =
     Some \<lparr>active = Some [header_row, ex_record, ex_old_record], half_row = []\<rparr>
   \<and> web ex_env (page_url ex_city ex_year (pad_month [51])) =
       Some \<lparr>status_code = 200, table = Some ex_rows\<rparr>
   \<and> RowTag ex_old_row \<in> set (drop 1 ex_rows)
   \<and> hd ex_old_row = ex_old_date
   \<and> re_match date_pattern ex_old_date = Some [[50, 48, 50, 48], [49], [48, 55]]
   \<and> ex_old_record ! 0 = CStr ex_year
   \<and> ex_old_record ! 1 = CStr [51]
   \<and> ex_old_record ! 2 = CStr [55]"
proof -
  have m: "py_int [51] = Some 3" by (simp add: int_eval)
  have a: "active (opened_book (Book new_workbook) ex_world) = Some [header_row]"
    by (simp add: opened_book_def new_workbook_def)
  have b: "fst (snd (fetch_weather_data ex_env (Book new_workbook) ex_city ex_year [51] ex_world)) =
     Some \<lparr>active = Some [header_row, ex_record, ex_old_record], half_row = []\<rparr>"
    unfolding fetch_accepted [OF int_ex_year ex_env_clock(1) m ex_env_clock(4) a] fetch_page_result
    by (simp add: pad_month_def ex_env_pages ex_rows_simps opened_book_def new_workbook_def)
  have w: "web ex_env (page_url ex_city ex_year (pad_month [51])) =
       Some \<lparr>status_code = 200, table = Some ex_rows\<rparr>"
    by (simp add: pad_month_def ex_env_pages)
  have i: "RowTag ex_old_row \<in> set (drop 1 ex_rows)" "hd ex_old_row = ex_old_date"
    by (simp_all add: ex_rows_def ex_old_row_def)
  from record_year_month_from_arguments [OF a b]
  obtain new where n: "active \<lparr>active = Some [header_row, ex_record, ex_old_record], half_row = []\<rparr>
                         = Some ([header_row] @ new)"
    and p: "\<forall>r \<in> set new. r ! 0 = CStr (take 32767 ex_year)
              \<and> r ! 1 = CStr (take 32767 (lstrip [48] (pad_month [51])))"
    by blast
  from n have "new = [ex_record, ex_old_record]" by simp
  with p have "ex_old_record ! 0 = CStr (take 32767 ex_year)
      \<and> ex_old_record ! 1 = CStr (take 32767 (lstrip [48] (pad_month [51])))"
    by simp
  then have "ex_old_record ! 0 = CStr ex_year \<and> ex_old_record ! 1 = CStr [51]"
    by (simp add: ex_year_def pad_month_def lstrip_def)
  moreover have "ex_old_record ! 2 = CStr [55]" by (simp add: ex_old_record_def)
  ultimately show ?thesis using b w i ex_matches(3) by blast
qed







end
